theory Spec2Isabelle
  imports Main "HOL-Library.Word"
begin

unbundle bit_operations_syntax

section \<open>AES-XTS for x86_64 (AES-NI/AVX, VAES/AVX2, VAES/AVX10): the embedding\<close>

text \<open>
  The source is one assembler macro, \<open>_aes_xts_crypt\<close>, instantiated for four
  (vector length, register tier) pairs. Each assembler macro becomes one HOL function of
  the same name (without the leading underscore). An instruction is a function on one
  128-bit lane; a vector instruction applies it to every lane of a register.
\<close>

subsection \<open>Registers and lanes\<close>

text \<open>An xmm register is a 128-bit word; a V register (xmm, ymm or zmm, by the
  vector length) is the list of its 128-bit lanes, lowest lane first.\<close>

type_synonym xmm = "128 word"
type_synonym vec = "xmm list"
type_synonym byte = "8 word"

definition qword :: "xmm \<Rightarrow> nat \<Rightarrow> 64 word" where
  "qword x i = ucast (drop_bit (64 * i) x)"

definition of_qwords :: "64 word \<Rightarrow> 64 word \<Rightarrow> xmm" where
  "of_qwords lo hi = word_cat hi lo"

definition dword :: "xmm \<Rightarrow> nat \<Rightarrow> 32 word" where
  "dword x i = ucast (drop_bit (32 * i) x)"

definition of_dwords :: "32 word \<Rightarrow> 32 word \<Rightarrow> 32 word \<Rightarrow> 32 word \<Rightarrow> xmm" where
  "of_dwords d0 d1 d2 d3 = word_cat (word_cat d3 d2 :: 64 word) (word_cat d1 d0 :: 64 word)"

text \<open>Bytes of a register in memory order (little endian): byte 0 is bits 0..7.\<close>

definition byte_of :: "xmm \<Rightarrow> nat \<Rightarrow> byte" where
  "byte_of x i = ucast (drop_bit (8 * i) x)"

definition to_bytes :: "xmm \<Rightarrow> byte list" where
  "to_bytes x = map (byte_of x) [0..<16]"

definition of_bytes :: "byte list \<Rightarrow> xmm" where
  "of_bytes bs = word_of_int (horner_sum uint (2 ^ 8) bs)"

text \<open>The low lane of a V register (its \<open>_XMM\<close> alias), and the value a V register
  holds after a VEX or EVEX instruction wrote its xmm alias: the upper lanes are zeroed.\<close>

definition low_lane :: "vec \<Rightarrow> xmm" where
  "low_lane v = (case v of [] \<Rightarrow> 0 | x # _ \<Rightarrow> x)"

definition write_xmm :: "nat \<Rightarrow> xmm \<Rightarrow> vec" where
  "write_xmm VLEN x = x # replicate (VLEN div 16 - 1) 0"

subsection \<open>Instructions, on one 128-bit lane\<close>

text \<open>Operands are in the order of the assembler text (AT\&T: sources first); the
  destination is the result.\<close>

definition vpshufd :: "byte \<Rightarrow> xmm \<Rightarrow> xmm" where
  "vpshufd imm src = of_dwords
     (dword src (unat (imm AND 3)))
     (dword src (unat (drop_bit 2 imm AND 3)))
     (dword src (unat (drop_bit 4 imm AND 3)))
     (dword src (unat (drop_bit 6 imm AND 3)))"

definition vpaddq :: "xmm \<Rightarrow> xmm \<Rightarrow> xmm" where
  "vpaddq a b = of_qwords (qword a 0 + qword b 0) (qword a 1 + qword b 1)"

definition vpsrad :: "nat \<Rightarrow> xmm \<Rightarrow> xmm" where
  "vpsrad n a = of_dwords (signed_drop_bit n (dword a 0)) (signed_drop_bit n (dword a 1))
                          (signed_drop_bit n (dword a 2)) (signed_drop_bit n (dword a 3))"

definition vpand :: "xmm \<Rightarrow> xmm \<Rightarrow> xmm" where
  "vpand a b = a AND b"

definition vpxor :: "xmm \<Rightarrow> xmm \<Rightarrow> xmm" where
  "vpxor a b = a XOR b"

definition vpsrlq :: "nat \<Rightarrow> xmm \<Rightarrow> xmm" where
  "vpsrlq n a = of_qwords (drop_bit n (qword a 0)) (drop_bit n (qword a 1))"

definition vpsllq :: "nat \<Rightarrow> xmm \<Rightarrow> xmm" where
  "vpsllq n a = of_qwords (push_bit n (qword a 0)) (push_bit n (qword a 1))"

text \<open>Byte shifts of the whole 128-bit lane.\<close>

definition vpslldq :: "nat \<Rightarrow> xmm \<Rightarrow> xmm" where
  "vpslldq n a = push_bit (8 * n) a"

definition vpsrldq :: "nat \<Rightarrow> xmm \<Rightarrow> xmm" where
  "vpsrldq n a = drop_bit (8 * n) a"

text \<open>Carry-less multiplication of two 64-bit polynomials over GF(2). Bit 0 of the
  immediate selects the quadword of the first source (the third operand of the assembler
  text), bit 4 the quadword of the second source.\<close>

definition clmul :: "64 word \<Rightarrow> 64 word \<Rightarrow> xmm" where
  "clmul a b = fold (\<lambda>i acc. if bit b i then acc XOR push_bit i (ucast a) else acc) [0..<64] 0"

definition vpclmulqdq :: "byte \<Rightarrow> xmm \<Rightarrow> xmm \<Rightarrow> xmm" where
  "vpclmulqdq imm src2 src1 =
     clmul (qword src1 (if bit imm 0 then 1 else 0)) (qword src2 (if bit imm 4 then 1 else 0))"

text \<open>\<open>vpternlogd\<close>: bit \<open>4c + 2b + a\<close> of the immediate is the result for the bits
  \<open>a\<close>, \<open>b\<close>, \<open>c\<close> of the three operands.\<close>

definition ternlog_sel :: "bool \<Rightarrow> xmm \<Rightarrow> xmm" where
  "ternlog_sel b x = (if b then x else NOT x)"

definition vpternlogd :: "byte \<Rightarrow> xmm \<Rightarrow> xmm \<Rightarrow> xmm \<Rightarrow> xmm" where
  "vpternlogd imm src1 src2 dst =
     fold (\<lambda>k acc. if bit imm k
             then acc OR (ternlog_sel (bit k 2) dst AND ternlog_sel (bit k 1) src2
                          AND ternlog_sel (bit k 0) src1)
             else acc) [0..<8] 0"

subsection \<open>The constants of the read-only section\<close>

text \<open>\<open>.Lgf_poly: .quad 0x87, 1\<close>: the low quadword is the reduction polynomial
  \<open>x^7 + x^2 + x + 1\<close>, the high quadword the carry from bit 63 into bit 64.\<close>

definition gf_poly :: xmm where
  "gf_poly = of_qwords 0x87 1"

definition cts_permute_table :: "byte list" where
  "cts_permute_table =
    [0x80, 0x80, 0x80, 0x80, 0x80, 0x80, 0x80, 0x80,
     0x80, 0x80, 0x80, 0x80, 0x80, 0x80, 0x80, 0x80,
     0x00, 0x01, 0x02, 0x03, 0x04, 0x05, 0x06, 0x07,
     0x08, 0x09, 0x0a, 0x0b, 0x0c, 0x0d, 0x0e, 0x0f,
     0x80, 0x80, 0x80, 0x80, 0x80, 0x80, 0x80, 0x80,
     0x80, 0x80, 0x80, 0x80, 0x80, 0x80, 0x80, 0x80]"

subsection \<open>The tweak macros\<close>

text \<open>\<open>_xor3\<close>: one \<open>vpternlogd $0x96\<close> with 32 registers, two \<open>vpxor\<close> otherwise.\<close>

definition xor3 :: "bool \<Rightarrow> xmm \<Rightarrow> xmm \<Rightarrow> xmm \<Rightarrow> xmm" where
  "xor3 avx10 src1 src2 src3_and_dst =
     (if avx10 then vpternlogd 0x96 src1 src2 src3_and_dst
      else vpxor src2 (vpxor src1 src3_and_dst))"

text \<open>\<open>_next_tweak src, tmp, dst\<close>, with \<open>GF_POLY_XMM\<close> holding \<open>.Lgf_poly\<close>.\<close>

definition next_tweak :: "xmm \<Rightarrow> xmm" where
  "next_tweak src =
     (let tmp = vpshufd 0x13 src;
          dst = vpaddq src src;
          tmp = vpsrad 31 tmp;
          tmp = vpand gf_poly tmp
      in vpxor tmp dst)"

text \<open>The \<open>.else\<close> branch of \<open>_next_tweakvec\<close> on one lane: the shift counts are
  \<open>64 - VL/16\<close> and \<open>VL/16\<close>.\<close>

definition next_tweak_pclmul :: "bool \<Rightarrow> nat \<Rightarrow> xmm \<Rightarrow> xmm" where
  "next_tweak_pclmul avx10 VLEN src =
     (let tmp1 = vpsrlq (64 - VLEN div 16) src;
          tmp2 = vpclmulqdq 0x01 gf_poly tmp1;
          tmp1 = vpslldq 8 tmp1;
          dst = vpsllq (VLEN div 16) src
      in xor3 avx10 tmp1 tmp2 dst)"

definition next_tweakvec :: "bool \<Rightarrow> nat \<Rightarrow> vec \<Rightarrow> vec" where
  "next_tweakvec avx10 VLEN src =
     (if VLEN = 16 then map next_tweak src
      else map (next_tweak_pclmul avx10 VLEN) src)"

subsection \<open>The AES round instructions\<close>

text \<open>
  \<open>vaesenc\<close>, \<open>vaesenclast\<close>, \<open>vaesdec\<close> and \<open>vaesdeclast\<close> are instructions of
  the processor: one round of the cipher of FIPS 197 on a 128-bit state, whose byte
  \<open>4 * c + r\<close> (in memory order) is row \<open>r\<close> of column \<open>c\<close>. The S-box and its inverse
  are the tables of the standard.
\<close>

definition sbox :: "byte list" where
  "sbox = [
     0x63, 0x7c, 0x77, 0x7b, 0xf2, 0x6b, 0x6f, 0xc5, 0x30, 0x01, 0x67, 0x2b, 0xfe, 0xd7, 0xab, 0x76,
     0xca, 0x82, 0xc9, 0x7d, 0xfa, 0x59, 0x47, 0xf0, 0xad, 0xd4, 0xa2, 0xaf, 0x9c, 0xa4, 0x72, 0xc0,
     0xb7, 0xfd, 0x93, 0x26, 0x36, 0x3f, 0xf7, 0xcc, 0x34, 0xa5, 0xe5, 0xf1, 0x71, 0xd8, 0x31, 0x15,
     0x04, 0xc7, 0x23, 0xc3, 0x18, 0x96, 0x05, 0x9a, 0x07, 0x12, 0x80, 0xe2, 0xeb, 0x27, 0xb2, 0x75,
     0x09, 0x83, 0x2c, 0x1a, 0x1b, 0x6e, 0x5a, 0xa0, 0x52, 0x3b, 0xd6, 0xb3, 0x29, 0xe3, 0x2f, 0x84,
     0x53, 0xd1, 0x00, 0xed, 0x20, 0xfc, 0xb1, 0x5b, 0x6a, 0xcb, 0xbe, 0x39, 0x4a, 0x4c, 0x58, 0xcf,
     0xd0, 0xef, 0xaa, 0xfb, 0x43, 0x4d, 0x33, 0x85, 0x45, 0xf9, 0x02, 0x7f, 0x50, 0x3c, 0x9f, 0xa8,
     0x51, 0xa3, 0x40, 0x8f, 0x92, 0x9d, 0x38, 0xf5, 0xbc, 0xb6, 0xda, 0x21, 0x10, 0xff, 0xf3, 0xd2,
     0xcd, 0x0c, 0x13, 0xec, 0x5f, 0x97, 0x44, 0x17, 0xc4, 0xa7, 0x7e, 0x3d, 0x64, 0x5d, 0x19, 0x73,
     0x60, 0x81, 0x4f, 0xdc, 0x22, 0x2a, 0x90, 0x88, 0x46, 0xee, 0xb8, 0x14, 0xde, 0x5e, 0x0b, 0xdb,
     0xe0, 0x32, 0x3a, 0x0a, 0x49, 0x06, 0x24, 0x5c, 0xc2, 0xd3, 0xac, 0x62, 0x91, 0x95, 0xe4, 0x79,
     0xe7, 0xc8, 0x37, 0x6d, 0x8d, 0xd5, 0x4e, 0xa9, 0x6c, 0x56, 0xf4, 0xea, 0x65, 0x7a, 0xae, 0x08,
     0xba, 0x78, 0x25, 0x2e, 0x1c, 0xa6, 0xb4, 0xc6, 0xe8, 0xdd, 0x74, 0x1f, 0x4b, 0xbd, 0x8b, 0x8a,
     0x70, 0x3e, 0xb5, 0x66, 0x48, 0x03, 0xf6, 0x0e, 0x61, 0x35, 0x57, 0xb9, 0x86, 0xc1, 0x1d, 0x9e,
     0xe1, 0xf8, 0x98, 0x11, 0x69, 0xd9, 0x8e, 0x94, 0x9b, 0x1e, 0x87, 0xe9, 0xce, 0x55, 0x28, 0xdf,
     0x8c, 0xa1, 0x89, 0x0d, 0xbf, 0xe6, 0x42, 0x68, 0x41, 0x99, 0x2d, 0x0f, 0xb0, 0x54, 0xbb, 0x16]"

definition inv_sbox :: "byte list" where
  "inv_sbox = [
     0x52, 0x09, 0x6a, 0xd5, 0x30, 0x36, 0xa5, 0x38, 0xbf, 0x40, 0xa3, 0x9e, 0x81, 0xf3, 0xd7, 0xfb,
     0x7c, 0xe3, 0x39, 0x82, 0x9b, 0x2f, 0xff, 0x87, 0x34, 0x8e, 0x43, 0x44, 0xc4, 0xde, 0xe9, 0xcb,
     0x54, 0x7b, 0x94, 0x32, 0xa6, 0xc2, 0x23, 0x3d, 0xee, 0x4c, 0x95, 0x0b, 0x42, 0xfa, 0xc3, 0x4e,
     0x08, 0x2e, 0xa1, 0x66, 0x28, 0xd9, 0x24, 0xb2, 0x76, 0x5b, 0xa2, 0x49, 0x6d, 0x8b, 0xd1, 0x25,
     0x72, 0xf8, 0xf6, 0x64, 0x86, 0x68, 0x98, 0x16, 0xd4, 0xa4, 0x5c, 0xcc, 0x5d, 0x65, 0xb6, 0x92,
     0x6c, 0x70, 0x48, 0x50, 0xfd, 0xed, 0xb9, 0xda, 0x5e, 0x15, 0x46, 0x57, 0xa7, 0x8d, 0x9d, 0x84,
     0x90, 0xd8, 0xab, 0x00, 0x8c, 0xbc, 0xd3, 0x0a, 0xf7, 0xe4, 0x58, 0x05, 0xb8, 0xb3, 0x45, 0x06,
     0xd0, 0x2c, 0x1e, 0x8f, 0xca, 0x3f, 0x0f, 0x02, 0xc1, 0xaf, 0xbd, 0x03, 0x01, 0x13, 0x8a, 0x6b,
     0x3a, 0x91, 0x11, 0x41, 0x4f, 0x67, 0xdc, 0xea, 0x97, 0xf2, 0xcf, 0xce, 0xf0, 0xb4, 0xe6, 0x73,
     0x96, 0xac, 0x74, 0x22, 0xe7, 0xad, 0x35, 0x85, 0xe2, 0xf9, 0x37, 0xe8, 0x1c, 0x75, 0xdf, 0x6e,
     0x47, 0xf1, 0x1a, 0x71, 0x1d, 0x29, 0xc5, 0x89, 0x6f, 0xb7, 0x62, 0x0e, 0xaa, 0x18, 0xbe, 0x1b,
     0xfc, 0x56, 0x3e, 0x4b, 0xc6, 0xd2, 0x79, 0x20, 0x9a, 0xdb, 0xc0, 0xfe, 0x78, 0xcd, 0x5a, 0xf4,
     0x1f, 0xdd, 0xa8, 0x33, 0x88, 0x07, 0xc7, 0x31, 0xb1, 0x12, 0x10, 0x59, 0x27, 0x80, 0xec, 0x5f,
     0x60, 0x51, 0x7f, 0xa9, 0x19, 0xb5, 0x4a, 0x0d, 0x2d, 0xe5, 0x7a, 0x9f, 0x93, 0xc9, 0x9c, 0xef,
     0xa0, 0xe0, 0x3b, 0x4d, 0xae, 0x2a, 0xf5, 0xb0, 0xc8, 0xeb, 0xbb, 0x3c, 0x83, 0x53, 0x99, 0x61,
     0x17, 0x2b, 0x04, 0x7e, 0xba, 0x77, 0xd6, 0x26, 0xe1, 0x69, 0x14, 0x63, 0x55, 0x21, 0x0c, 0x7d]"

definition sub_byte :: "byte \<Rightarrow> byte" where
  "sub_byte b = sbox ! unat b"

definition inv_sub_byte :: "byte \<Rightarrow> byte" where
  "inv_sub_byte b = inv_sbox ! unat b"

text \<open>Multiplication by \<open>x\<close> in GF(2^8) modulo \<open>x^8 + x^4 + x^3 + x + 1\<close>, and by the
  constants of the two column matrices.\<close>

definition xtime :: "byte \<Rightarrow> byte" where
  "xtime b = push_bit 1 b XOR (if bit b 7 then 0x1b else 0)"

definition gmul3 :: "byte \<Rightarrow> byte" where
  "gmul3 b = xtime b XOR b"

definition gmul9 :: "byte \<Rightarrow> byte" where
  "gmul9 b = xtime (xtime (xtime b)) XOR b"

definition gmul11 :: "byte \<Rightarrow> byte" where
  "gmul11 b = xtime (xtime (xtime b)) XOR xtime b XOR b"

definition gmul13 :: "byte \<Rightarrow> byte" where
  "gmul13 b = xtime (xtime (xtime b)) XOR xtime (xtime b) XOR b"

definition gmul14 :: "byte \<Rightarrow> byte" where
  "gmul14 b = xtime (xtime (xtime b)) XOR xtime (xtime b) XOR xtime b"

definition shift_rows :: "xmm \<Rightarrow> xmm" where
  "shift_rows x = of_bytes (map (\<lambda>i. byte_of x ((i + 4 * (i mod 4)) mod 16)) [0..<16])"

definition inv_shift_rows :: "xmm \<Rightarrow> xmm" where
  "inv_shift_rows x = of_bytes (map (\<lambda>i. byte_of x ((i + 12 * (i mod 4)) mod 16)) [0..<16])"

definition sub_bytes :: "xmm \<Rightarrow> xmm" where
  "sub_bytes x = of_bytes (map sub_byte (to_bytes x))"

definition inv_sub_bytes :: "xmm \<Rightarrow> xmm" where
  "inv_sub_bytes x = of_bytes (map inv_sub_byte (to_bytes x))"

definition mix_column :: "byte \<Rightarrow> byte \<Rightarrow> byte \<Rightarrow> byte \<Rightarrow> byte list" where
  "mix_column a0 a1 a2 a3 =
     [xtime a0 XOR gmul3 a1 XOR a2 XOR a3,
      a0 XOR xtime a1 XOR gmul3 a2 XOR a3,
      a0 XOR a1 XOR xtime a2 XOR gmul3 a3,
      gmul3 a0 XOR a1 XOR a2 XOR xtime a3]"

definition inv_mix_column :: "byte \<Rightarrow> byte \<Rightarrow> byte \<Rightarrow> byte \<Rightarrow> byte list" where
  "inv_mix_column a0 a1 a2 a3 =
     [gmul14 a0 XOR gmul11 a1 XOR gmul13 a2 XOR gmul9 a3,
      gmul9 a0 XOR gmul14 a1 XOR gmul11 a2 XOR gmul13 a3,
      gmul13 a0 XOR gmul9 a1 XOR gmul14 a2 XOR gmul11 a3,
      gmul11 a0 XOR gmul13 a1 XOR gmul9 a2 XOR gmul14 a3]"

definition mix_columns :: "xmm \<Rightarrow> xmm" where
  "mix_columns x = of_bytes (concat (map (\<lambda>c.
     mix_column (byte_of x (4 * c)) (byte_of x (4 * c + 1)) (byte_of x (4 * c + 2)) (byte_of x (4 * c + 3)))
     [0..<4]))"

definition inv_mix_columns :: "xmm \<Rightarrow> xmm" where
  "inv_mix_columns x = of_bytes (concat (map (\<lambda>c.
     inv_mix_column (byte_of x (4 * c)) (byte_of x (4 * c + 1)) (byte_of x (4 * c + 2)) (byte_of x (4 * c + 3)))
     [0..<4]))"

text \<open>The four instructions: round key first, as in the assembler text.\<close>

definition vaesenc :: "xmm \<Rightarrow> xmm \<Rightarrow> xmm" where
  "vaesenc key data = mix_columns (sub_bytes (shift_rows data)) XOR key"

definition vaesenclast :: "xmm \<Rightarrow> xmm \<Rightarrow> xmm" where
  "vaesenclast key data = sub_bytes (shift_rows data) XOR key"

definition vaesdec :: "xmm \<Rightarrow> xmm \<Rightarrow> xmm" where
  "vaesdec key data = inv_mix_columns (inv_sub_bytes (inv_shift_rows data)) XOR key"

definition vaesdeclast :: "xmm \<Rightarrow> xmm \<Rightarrow> xmm" where
  "vaesdeclast key data = inv_sub_bytes (inv_shift_rows data) XOR key"

subsection \<open>Build parameters, key schedule and machine state\<close>

text \<open>\<open>VL\<close> is 16, 32 or 64 (\<open>_define_Vi\<close> rejects any other value); \<open>USE_AVX10\<close>
  says whether 32 vector registers are available.\<close>

datatype vlen = VL16 | VL32 | VL64

record config =
  vl :: vlen
  USE_AVX10 :: bool

definition VL :: "config \<Rightarrow> nat" where
  "VL cfg = (case vl cfg of VL16 \<Rightarrow> 16 | VL32 \<Rightarrow> 32 | VL64 \<Rightarrow> 64)"

text \<open>\<open>struct crypto_aes_ctx\<close> as the code reads it: the encryption round keys at
  offset 0, the decryption round keys at offset 240, the key length in bytes at offset
  480. Round key \<open>i\<close> is the 16 bytes at \<open>i*16(KEY)\<close>; each schedule has 15 slots.\<close>

record crypto_aes_ctx =
  key_enc :: "nat \<Rightarrow> xmm"
  key_dec :: "nat \<Rightarrow> xmm"
  key_length :: "32 word"

text \<open>The state the loops work on: data memory, the pointer and length registers, and
  the vector registers that carry a value from one macro to the next. \<open>LEN\<close> is the
  signed value of \<open>%rcx\<close> (it goes below zero between a \<open>sub\<close> and the \<open>add\<close> that
  undoes it); lengths are below \<open>2^63\<close>. \<open>V4\<close> and the scratch registers of a macro are
  written before every read inside that macro and stay local.\<close>

record xts_state =
  mem :: "nat \<Rightarrow> byte"
  SRC :: nat
  DST :: nat
  LEN :: int
  V0 :: vec
  V1 :: vec
  V2 :: vec
  V3 :: vec
  V5 :: vec
  TWEAK0 :: vec
  TWEAK1 :: vec
  TWEAK2 :: vec
  TWEAK3 :: vec
  NEXT_TWEAK0 :: vec
  NEXT_TWEAK1 :: vec
  NEXT_TWEAK2 :: vec
  NEXT_TWEAK3 :: vec

subsection \<open>Memory\<close>

definition load128 :: "(nat \<Rightarrow> byte) \<Rightarrow> nat \<Rightarrow> xmm" where
  "load128 m a = of_bytes (map (\<lambda>i. m (a + i)) [0..<16])"

definition store128 :: "(nat \<Rightarrow> byte) \<Rightarrow> nat \<Rightarrow> xmm \<Rightarrow> (nat \<Rightarrow> byte)" where
  "store128 m a x = (\<lambda>p. if a \<le> p \<and> p < a + 16 then byte_of x (p - a) else m p)"

text \<open>\<open>_vmovdqu\<close> of a whole V register: its lanes are consecutive 16-byte blocks.\<close>

fun vmovdqu_load :: "(nat \<Rightarrow> byte) \<Rightarrow> nat \<Rightarrow> nat \<Rightarrow> vec" where
  "vmovdqu_load m a 0 = []"
| "vmovdqu_load m a (Suc n) = load128 m a # vmovdqu_load m (a + 16) n"

fun vmovdqu_store :: "(nat \<Rightarrow> byte) \<Rightarrow> nat \<Rightarrow> vec \<Rightarrow> (nat \<Rightarrow> byte)" where
  "vmovdqu_store m a [] = m"
| "vmovdqu_store m a (x # xs) = vmovdqu_store (store128 m a x) (a + 16) xs"

text \<open>\<open>vmovdqu8\<close> of an xmm register under a byte mask: a load keeps the bytes of the
  destination whose mask bit is clear, a store leaves those bytes of memory alone.\<close>

definition vmovdqu8_load_masked :: "64 word \<Rightarrow> (nat \<Rightarrow> byte) \<Rightarrow> nat \<Rightarrow> xmm \<Rightarrow> xmm" where
  "vmovdqu8_load_masked k m a dst =
     of_bytes (map (\<lambda>i. if bit k i then m (a + i) else byte_of dst i) [0..<16])"

definition vmovdqu8_store_masked :: "64 word \<Rightarrow> xmm \<Rightarrow> (nat \<Rightarrow> byte) \<Rightarrow> nat \<Rightarrow> (nat \<Rightarrow> byte)" where
  "vmovdqu8_store_masked k x m a =
     (\<lambda>p. if a \<le> p \<and> p < a + 16 \<and> bit k (p - a) then byte_of x (p - a) else m p)"

text \<open>\<open>bzhi\<close>: clear the bits of the source from the index upwards.\<close>

definition bzhi :: "nat \<Rightarrow> 64 word \<Rightarrow> 64 word" where
  "bzhi n src = (if n < 64 then take_bit n src else src)"

text \<open>Byte shuffle and byte blend, the control or mask operand first.\<close>

definition vpshufb :: "xmm \<Rightarrow> xmm \<Rightarrow> xmm" where
  "vpshufb ctrl src =
     of_bytes (map (\<lambda>c. if bit c 7 then 0 else byte_of src (unat (c AND 15))) (to_bytes ctrl))"

definition vpblendvb :: "xmm \<Rightarrow> xmm \<Rightarrow> xmm \<Rightarrow> xmm" where
  "vpblendvb msk src2 src1 =
     of_bytes (map (\<lambda>i. if bit (byte_of msk i) 7 then byte_of src2 i else byte_of src1 i) [0..<16])"

text \<open>A 16-byte load from \<open>.Lcts_permute_table\<close> at a byte offset.\<close>

definition load_cts_permute_table :: "nat \<Rightarrow> xmm" where
  "load_cts_permute_table off = of_bytes (take 16 (drop off cts_permute_table))"

subsection \<open>Computing tweaks\<close>

definition vinserti :: "nat \<Rightarrow> xmm \<Rightarrow> vec \<Rightarrow> vec" where
  "vinserti i x v = v[i := x]"

text \<open>\<open>_compute_first_set_of_tweaks\<close>: from the tweak at \<open>(TWEAK)\<close> to the registers
  \<open>TWEAK0\<close> .. \<open>TWEAK3\<close>.\<close>

definition compute_first_set_of_tweaks :: "config \<Rightarrow> xmm \<Rightarrow> vec \<times> vec \<times> vec \<times> vec" where
  "compute_first_set_of_tweaks cfg tweak =
     (let tweak0 = write_xmm (VL cfg) tweak in
      if VL cfg = 16 then
        (let tweak1 = map next_tweak tweak0;
             tweak2 = map next_tweak tweak1;
             tweak3 = map next_tweak tweak2
         in (tweak0, tweak1, tweak2, tweak3))
      else
        (let tweak0 =
               (if VL cfg = 32 then
                  (let xmm1 = next_tweak (low_lane tweak0)
                   in vinserti 1 xmm1 tweak0)
                else
                  (let xmm1 = next_tweak (low_lane tweak0);
                       xmm2 = next_tweak xmm1;
                       xmm3 = next_tweak xmm2
                   in vinserti 3 xmm3 (vinserti 2 xmm2 (vinserti 1 xmm1 tweak0))));
             v0 = map (vpsrlq (64 - 1 * VL cfg div 16)) tweak0;
             v2 = map (vpsrlq (64 - 2 * VL cfg div 16)) tweak0;
             v4 = map (vpsrlq (64 - 3 * VL cfg div 16)) tweak0;
             v1 = map (vpclmulqdq 0x01 gf_poly) v0;
             v3 = map (vpclmulqdq 0x01 gf_poly) v2;
             v5 = map (vpclmulqdq 0x01 gf_poly) v4;
             v0 = map (vpslldq 8) v0;
             v2 = map (vpslldq 8) v2;
             v4 = map (vpslldq 8) v4;
             tweak1 = map (vpsllq (1 * VL cfg div 16)) tweak0;
             tweak2 = map (vpsllq (2 * VL cfg div 16)) tweak0;
             tweak3 = map (vpsllq (3 * VL cfg div 16)) tweak0
         in if USE_AVX10 cfg then
              (tweak0,
               map (\<lambda>(a, b, c). vpternlogd 0x96 a b c) (zip v0 (zip v1 tweak1)),
               map (\<lambda>(a, b, c). vpternlogd 0x96 a b c) (zip v2 (zip v3 tweak2)),
               map (\<lambda>(a, b, c). vpternlogd 0x96 a b c) (zip v4 (zip v5 tweak3)))
            else
              (tweak0,
               map2 vpxor v1 (map2 vpxor v0 tweak1),
               map2 vpxor v3 (map2 vpxor v2 tweak2),
               map2 vpxor v5 (map2 vpxor v4 tweak3))))"

text \<open>\<open>_tweak_step_mulx\<close>. The assembler symbols \<open>PREV_TWEAK\<close> and \<open>NEXT_TWEAK\<close> are
  set at steps 0, 5, 10 and 15 and keep their value for the steps that follow, so at
  step \<open>i < 20\<close> they are the registers below.\<close>

definition PREV_TWEAK :: "nat \<Rightarrow> xts_state \<Rightarrow> vec" where
  "PREV_TWEAK i s =
     (if i < 5 then TWEAK3 s else if i < 10 then NEXT_TWEAK0 s
      else if i < 15 then NEXT_TWEAK1 s else NEXT_TWEAK2 s)"

definition NEXT_TWEAK :: "nat \<Rightarrow> xts_state \<Rightarrow> vec" where
  "NEXT_TWEAK i s =
     (if i < 5 then NEXT_TWEAK0 s else if i < 10 then NEXT_TWEAK1 s
      else if i < 15 then NEXT_TWEAK2 s else NEXT_TWEAK3 s)"

definition set_NEXT_TWEAK :: "nat \<Rightarrow> vec \<Rightarrow> xts_state \<Rightarrow> xts_state" where
  "set_NEXT_TWEAK i v s =
     (if i < 5 then s\<lparr>NEXT_TWEAK0 := v\<rparr> else if i < 10 then s\<lparr>NEXT_TWEAK1 := v\<rparr>
      else if i < 15 then s\<lparr>NEXT_TWEAK2 := v\<rparr> else s\<lparr>NEXT_TWEAK3 := v\<rparr>)"

definition tweak_step_mulx :: "nat \<Rightarrow> xts_state \<Rightarrow> xts_state" where
  "tweak_step_mulx i s =
     (if i < 20 \<and> i mod 5 = 0 then s\<lparr>V5 := map (vpshufd 0x13) (PREV_TWEAK i s)\<rparr>
      else if i < 20 \<and> i mod 5 = 1 then
        set_NEXT_TWEAK i (map2 vpaddq (PREV_TWEAK i s) (PREV_TWEAK i s)) s
      else if i < 20 \<and> i mod 5 = 2 then s\<lparr>V5 := map (vpsrad 31) (V5 s)\<rparr>
      else if i < 20 \<and> i mod 5 = 3 then s\<lparr>V5 := map (vpand gf_poly) (V5 s)\<rparr>
      else if i < 20 \<and> i mod 5 = 4 then
        set_NEXT_TWEAK i (map2 vpxor (V5 s) (NEXT_TWEAK i s)) s
      else if i = 1000 then
        s\<lparr>TWEAK0 := NEXT_TWEAK0 s, TWEAK1 := NEXT_TWEAK1 s,
          TWEAK2 := NEXT_TWEAK2 s, TWEAK3 := NEXT_TWEAK3 s\<rparr>
      else s)"

text \<open>\<open>_tweak_step_pclmul\<close>: each tweak times \<open>x^(4*VL/16)\<close>, with byte shifts.\<close>

definition tweak_step_pclmul :: "nat \<Rightarrow> nat \<Rightarrow> xts_state \<Rightarrow> xts_state" where
  "tweak_step_pclmul VLEN i s =
     (if i = 2 then s\<lparr>NEXT_TWEAK0 := map (vpsrldq ((128 - 4 * VLEN div 16) div 8)) (TWEAK0 s)\<rparr>
      else if i = 4 then s\<lparr>NEXT_TWEAK1 := map (vpsrldq ((128 - 4 * VLEN div 16) div 8)) (TWEAK1 s)\<rparr>
      else if i = 6 then s\<lparr>NEXT_TWEAK2 := map (vpsrldq ((128 - 4 * VLEN div 16) div 8)) (TWEAK2 s)\<rparr>
      else if i = 8 then s\<lparr>NEXT_TWEAK3 := map (vpsrldq ((128 - 4 * VLEN div 16) div 8)) (TWEAK3 s)\<rparr>
      else if i = 10 then s\<lparr>NEXT_TWEAK0 := map (vpclmulqdq 0x00 gf_poly) (NEXT_TWEAK0 s)\<rparr>
      else if i = 12 then s\<lparr>NEXT_TWEAK1 := map (vpclmulqdq 0x00 gf_poly) (NEXT_TWEAK1 s)\<rparr>
      else if i = 14 then s\<lparr>NEXT_TWEAK2 := map (vpclmulqdq 0x00 gf_poly) (NEXT_TWEAK2 s)\<rparr>
      else if i = 16 then s\<lparr>NEXT_TWEAK3 := map (vpclmulqdq 0x00 gf_poly) (NEXT_TWEAK3 s)\<rparr>
      else if i = 1000 then
        (let s = s\<lparr>TWEAK0 := map (vpslldq ((4 * VLEN div 16) div 8)) (TWEAK0 s)\<rparr>;
             s = s\<lparr>TWEAK1 := map (vpslldq ((4 * VLEN div 16) div 8)) (TWEAK1 s)\<rparr>;
             s = s\<lparr>TWEAK2 := map (vpslldq ((4 * VLEN div 16) div 8)) (TWEAK2 s)\<rparr>;
             s = s\<lparr>TWEAK3 := map (vpslldq ((4 * VLEN div 16) div 8)) (TWEAK3 s)\<rparr>;
             s = s\<lparr>TWEAK0 := map2 vpxor (NEXT_TWEAK0 s) (TWEAK0 s)\<rparr>;
             s = s\<lparr>TWEAK1 := map2 vpxor (NEXT_TWEAK1 s) (TWEAK1 s)\<rparr>;
             s = s\<lparr>TWEAK2 := map2 vpxor (NEXT_TWEAK2 s) (TWEAK2 s)\<rparr>
         in s\<lparr>TWEAK3 := map2 vpxor (NEXT_TWEAK3 s) (TWEAK3 s)\<rparr>)
      else s)"

definition tweak_step :: "config \<Rightarrow> nat \<Rightarrow> xts_state \<Rightarrow> xts_state" where
  "tweak_step cfg i s =
     (if VL cfg = 16 then tweak_step_mulx i s else tweak_step_pclmul (VL cfg) i s)"

subsection \<open>The cipher core\<close>

text \<open>\<open>_load_round_keys\<close>: the registers \<open>KEY0\<close>, and \<open>KEY1\<close> .. \<open>KEY14\<close> when there
  are 32 registers. A key register holds one round key in every lane, and so does
  \<open>GF_POLY\<close>: the model keeps the one value.\<close>

definition load_round_keys :: "config \<Rightarrow> (nat \<Rightarrow> xmm) \<Rightarrow> xmm list" where
  "load_round_keys cfg key =
     (if USE_AVX10 cfg then map key [0..<15] else [key 0])"

text \<open>\<open>_vaes enc, last, key, data\<close>: one round on every lane of \<open>data\<close>.\<close>

definition vaes :: "bool \<Rightarrow> bool \<Rightarrow> xmm \<Rightarrow> vec \<Rightarrow> vec" where
  "vaes enc final key data =
     (if enc then
        (if final then map (vaesenclast key) data else map (vaesenc key) data)
      else
        (if final then map (vaesdeclast key) data else map (vaesdec key) data))"

text \<open>\<open>_vaes_1x\<close>: the round key of round \<open>i\<close> comes from its register with 32
  registers, from the schedule in memory otherwise (as a memory operand with
  \<open>xmm_suffix\<close>, through \<open>V4\<close> without: the same 16 bytes).\<close>

definition vaes_1x :: "config \<Rightarrow> bool \<Rightarrow> bool \<Rightarrow> nat \<Rightarrow> (nat \<Rightarrow> xmm) \<Rightarrow> xmm list \<Rightarrow> vec \<Rightarrow> vec" where
  "vaes_1x cfg enc final i key KEYS data =
     (if USE_AVX10 cfg then vaes enc final (KEYS ! i) data
      else vaes enc final (key i) data)"

text \<open>\<open>_vaes_4x\<close>: one round on \<open>V0\<close> .. \<open>V3\<close>, and steps \<open>2*(i-1)\<close> and
  \<open>2*(i-1) + 1\<close> of the next set of tweaks.\<close>

definition vaes_4x :: "config \<Rightarrow> bool \<Rightarrow> bool \<Rightarrow> nat \<Rightarrow> (nat \<Rightarrow> xmm) \<Rightarrow> xmm list \<Rightarrow> xts_state \<Rightarrow> xts_state" where
  "vaes_4x cfg enc final i key KEYS s =
     (let k = (if USE_AVX10 cfg then KEYS ! i else key i);
          s = tweak_step cfg (2 * (i - 1)) s;
          s = s\<lparr>V0 := vaes enc final k (V0 s)\<rparr>;
          s = s\<lparr>V1 := vaes enc final k (V1 s)\<rparr>;
          s = tweak_step cfg (2 * (i - 1) + 1) s;
          s = s\<lparr>V2 := vaes enc final k (V2 s)\<rparr>
      in s\<lparr>V3 := vaes enc final k (V3 s)\<rparr>)"

text \<open>\<open>_aes_crypt enc, xmm_suffix, tweak, data\<close>. The key length is compared with 24
  as a signed 32-bit value: above, 14 rounds; equal, 12; below, 10.\<close>

definition aes_crypt :: "config \<Rightarrow> bool \<Rightarrow> (nat \<Rightarrow> xmm) \<Rightarrow> xmm list \<Rightarrow> 32 word \<Rightarrow> vec \<Rightarrow> vec \<Rightarrow> vec" where
  "aes_crypt cfg enc key KEYS KEYLEN tweak data =
     (let data = map2 (xor3 (USE_AVX10 cfg) (KEYS ! 0)) tweak data;
          data = vaes_1x cfg enc False 1 key KEYS data;
          data = vaes_1x cfg enc False 2 key KEYS data;
          data = vaes_1x cfg enc False 3 key KEYS data;
          data = vaes_1x cfg enc False 4 key KEYS data;
          data = vaes_1x cfg enc False 5 key KEYS data;
          data = vaes_1x cfg enc False 6 key KEYS data;
          data = vaes_1x cfg enc False 7 key KEYS data;
          data = vaes_1x cfg enc False 8 key KEYS data;
          data = vaes_1x cfg enc False 9 key KEYS data;
          data =
            (if 24 < sint KEYLEN then
               (let data = vaes_1x cfg enc False 10 key KEYS data;
                    data = vaes_1x cfg enc False 11 key KEYS data;
                    data = vaes_1x cfg enc False 12 key KEYS data;
                    data = vaes_1x cfg enc False 13 key KEYS data
                in vaes_1x cfg enc True 14 key KEYS data)
             else if KEYLEN = 24 then
               (let data = vaes_1x cfg enc False 10 key KEYS data;
                    data = vaes_1x cfg enc False 11 key KEYS data
                in vaes_1x cfg enc True 12 key KEYS data)
             else vaes_1x cfg enc True 10 key KEYS data)
      in map2 vpxor tweak data)"

text \<open>\<open>aes_xts_encrypt_iv\<close>: the cipher alone, on the block at \<open>iv\<close>, under the
  encryption round keys of the tweak key.\<close>

definition aes_xts_encrypt_iv :: "crypto_aes_ctx \<Rightarrow> xmm \<Rightarrow> xmm" where
  "aes_xts_encrypt_iv tweak_key iv =
     (let xmm0 = vpxor (key_enc tweak_key 0) iv;
          xmm0 = vaesenc (key_enc tweak_key 1) xmm0;
          xmm0 = vaesenc (key_enc tweak_key 2) xmm0;
          xmm0 = vaesenc (key_enc tweak_key 3) xmm0;
          xmm0 = vaesenc (key_enc tweak_key 4) xmm0;
          xmm0 = vaesenc (key_enc tweak_key 5) xmm0;
          xmm0 = vaesenc (key_enc tweak_key 6) xmm0;
          xmm0 = vaesenc (key_enc tweak_key 7) xmm0;
          xmm0 = vaesenc (key_enc tweak_key 8) xmm0;
          xmm0 = vaesenc (key_enc tweak_key 9) xmm0
      in if 24 < sint (key_length tweak_key) then
           (let xmm0 = vaesenc (key_enc tweak_key 10) xmm0;
                xmm0 = vaesenc (key_enc tweak_key 11) xmm0;
                xmm0 = vaesenc (key_enc tweak_key 12) xmm0;
                xmm0 = vaesenc (key_enc tweak_key 13) xmm0
            in vaesenclast (key_enc tweak_key 14) xmm0)
         else if key_length tweak_key = 24 then
           (let xmm0 = vaesenc (key_enc tweak_key 10) xmm0;
                xmm0 = vaesenc (key_enc tweak_key 11) xmm0
            in vaesenclast (key_enc tweak_key 12) xmm0)
         else vaesenclast (key_enc tweak_key 10) xmm0)"

subsection \<open>The main loop\<close>

text \<open>The rounds of the main loop, from \<open>_vaes_4x enc, 0, 1\<close> to \<open>.Lencrypt_4x_done\<close>,
  with the out-of-line branches for AES-128 and AES-192.\<close>

definition main_loop_rounds ::
  "config \<Rightarrow> bool \<Rightarrow> (nat \<Rightarrow> xmm) \<Rightarrow> xmm list \<Rightarrow> 32 word \<Rightarrow> xts_state \<Rightarrow> xts_state" where
  "main_loop_rounds cfg enc key KEYS KEYLEN s =
     (let s = vaes_4x cfg enc False 1 key KEYS s;
          s = vaes_4x cfg enc False 2 key KEYS s;
          s = vaes_4x cfg enc False 3 key KEYS s;
          s = vaes_4x cfg enc False 4 key KEYS s;
          s = vaes_4x cfg enc False 5 key KEYS s;
          s = vaes_4x cfg enc False 6 key KEYS s;
          s = vaes_4x cfg enc False 7 key KEYS s;
          s = vaes_4x cfg enc False 8 key KEYS s;
          s = vaes_4x cfg enc False 9 key KEYS s
      in if 24 < sint KEYLEN then
           (let s = vaes_4x cfg enc False 10 key KEYS s;
                s = vaes_4x cfg enc False 11 key KEYS s;
                s = vaes_4x cfg enc False 12 key KEYS s;
                s = vaes_4x cfg enc False 13 key KEYS s
            in vaes_4x cfg enc True 14 key KEYS s)
         else if KEYLEN = 24 then
           (let s = vaes_4x cfg enc False 10 key KEYS s;
                s = vaes_4x cfg enc False 11 key KEYS s
            in vaes_4x cfg enc True 12 key KEYS s)
         else vaes_4x cfg enc True 10 key KEYS s)"

text \<open>One pass through \<open>.Lmain_loop\<close>, up to the \<open>sub $4*VL, LEN\<close> before the
  \<open>jge\<close>: \<open>4*VL\<close> bytes are loaded, en/decrypted and stored, and the next set of tweaks
  is computed between the rounds.\<close>

definition main_loop_body ::
  "config \<Rightarrow> bool \<Rightarrow> (nat \<Rightarrow> xmm) \<Rightarrow> xmm list \<Rightarrow> 32 word \<Rightarrow> xts_state \<Rightarrow> xts_state" where
  "main_loop_body cfg enc key KEYS KEYLEN s =
     (let n = VL cfg div 16;
          s = (if USE_AVX10 cfg then
                 (let s = s\<lparr>V0 := vmovdqu_load (mem s) (SRC s + 0 * VL cfg) n\<rparr>;
                      s = s\<lparr>V1 := vmovdqu_load (mem s) (SRC s + 1 * VL cfg) n\<rparr>;
                      s = s\<lparr>V2 := vmovdqu_load (mem s) (SRC s + 2 * VL cfg) n\<rparr>;
                      s = s\<lparr>V3 := vmovdqu_load (mem s) (SRC s + 3 * VL cfg) n\<rparr>;
                      s = s\<lparr>V0 := map2 (\<lambda>t d. vpternlogd 0x96 t (KEYS ! 0) d) (TWEAK0 s) (V0 s)\<rparr>;
                      s = s\<lparr>V1 := map2 (\<lambda>t d. vpternlogd 0x96 t (KEYS ! 0) d) (TWEAK1 s) (V1 s)\<rparr>;
                      s = s\<lparr>V2 := map2 (\<lambda>t d. vpternlogd 0x96 t (KEYS ! 0) d) (TWEAK2 s) (V2 s)\<rparr>
                  in s\<lparr>V3 := map2 (\<lambda>t d. vpternlogd 0x96 t (KEYS ! 0) d) (TWEAK3 s) (V3 s)\<rparr>)
               else
                 (let s = s\<lparr>V0 := map (\<lambda>d. vpxor d (KEYS ! 0)) (vmovdqu_load (mem s) (SRC s + 0 * VL cfg) n)\<rparr>;
                      s = s\<lparr>V1 := map (\<lambda>d. vpxor d (KEYS ! 0)) (vmovdqu_load (mem s) (SRC s + 1 * VL cfg) n)\<rparr>;
                      s = s\<lparr>V2 := map (\<lambda>d. vpxor d (KEYS ! 0)) (vmovdqu_load (mem s) (SRC s + 2 * VL cfg) n)\<rparr>;
                      s = s\<lparr>V3 := map (\<lambda>d. vpxor d (KEYS ! 0)) (vmovdqu_load (mem s) (SRC s + 3 * VL cfg) n)\<rparr>;
                      s = s\<lparr>V0 := map2 vpxor (TWEAK0 s) (V0 s)\<rparr>;
                      s = s\<lparr>V1 := map2 vpxor (TWEAK1 s) (V1 s)\<rparr>;
                      s = s\<lparr>V2 := map2 vpxor (TWEAK2 s) (V2 s)\<rparr>
                  in s\<lparr>V3 := map2 vpxor (TWEAK3 s) (V3 s)\<rparr>));
          s = main_loop_rounds cfg enc key KEYS KEYLEN s;
          s = s\<lparr>V0 := map2 vpxor (TWEAK0 s) (V0 s)\<rparr>;
          s = s\<lparr>V1 := map2 vpxor (TWEAK1 s) (V1 s)\<rparr>;
          s = s\<lparr>V2 := map2 vpxor (TWEAK2 s) (V2 s)\<rparr>;
          s = s\<lparr>V3 := map2 vpxor (TWEAK3 s) (V3 s)\<rparr>;
          s = s\<lparr>mem := vmovdqu_store (mem s) (DST s + 0 * VL cfg) (V0 s)\<rparr>;
          s = s\<lparr>mem := vmovdqu_store (mem s) (DST s + 1 * VL cfg) (V1 s)\<rparr>;
          s = s\<lparr>mem := vmovdqu_store (mem s) (DST s + 2 * VL cfg) (V2 s)\<rparr>;
          s = s\<lparr>mem := vmovdqu_store (mem s) (DST s + 3 * VL cfg) (V3 s)\<rparr>;
          s = tweak_step cfg 1000 s;
          s = s\<lparr>SRC := SRC s + 4 * VL cfg\<rparr>;
          s = s\<lparr>DST := DST s + 4 * VL cfg\<rparr>
      in s\<lparr>LEN := LEN s - 4 * int (VL cfg)\<rparr>)"

text \<open>The state is untouched by a tweak step or a round except for the vector
  registers: the loops below terminate because \<open>LEN\<close> goes down.\<close>

lemma LEN_tweak_step [simp]: "LEN (tweak_step cfg i s) = LEN s"
  by (simp add: tweak_step_def tweak_step_mulx_def tweak_step_pclmul_def set_NEXT_TWEAK_def Let_def)

lemma LEN_vaes_4x [simp]: "LEN (vaes_4x cfg enc final i key KEYS s) = LEN s"
  by (simp add: vaes_4x_def Let_def)

lemma LEN_main_loop_rounds [simp]:
  "LEN (main_loop_rounds cfg enc key KEYS KEYLEN s) = LEN s"
  by (simp add: main_loop_rounds_def Let_def)

lemma LEN_main_loop_body:
  "LEN (main_loop_body cfg enc key KEYS KEYLEN s) = LEN s - 4 * int (VL cfg)"
  by (simp add: main_loop_body_def Let_def)

lemma VL_pos: "0 < VL cfg"
  by (simp add: VL_def split: vlen.split)

lemma VL_le_pos: "int (VL cfg) \<le> x \<Longrightarrow> 0 < x" "4 * int (VL cfg) \<le> x \<Longrightarrow> 0 < x"
  using VL_pos [of cfg] by simp_all

text \<open>\<open>.Lmain_loop\<close> with its \<open>jge\<close>: the body runs once, and again while \<open>LEN\<close>, already
  reduced by \<open>4*VL\<close>, is not negative.\<close>

function main_loop ::
  "config \<Rightarrow> bool \<Rightarrow> (nat \<Rightarrow> xmm) \<Rightarrow> xmm list \<Rightarrow> 32 word \<Rightarrow> xts_state \<Rightarrow> xts_state" where
  "main_loop cfg enc key KEYS KEYLEN s =
     (let s = main_loop_body cfg enc key KEYS KEYLEN s
      in if 0 \<le> LEN s then main_loop cfg enc key KEYS KEYLEN s else s)"
  by pat_completeness auto
termination
  by (relation "measure (\<lambda>(cfg, enc, key, KEYS, KEYLEN, s). nat (LEN s))")
     (auto simp add: LEN_main_loop_body VL_pos dest: VL_le_pos)

subsection \<open>The remainder: a vector at a time, then a block at a time\<close>

definition vec_at_a_time_body ::
  "config \<Rightarrow> bool \<Rightarrow> (nat \<Rightarrow> xmm) \<Rightarrow> xmm list \<Rightarrow> 32 word \<Rightarrow> xts_state \<Rightarrow> xts_state" where
  "vec_at_a_time_body cfg enc key KEYS KEYLEN s =
     (let s = s\<lparr>V0 := vmovdqu_load (mem s) (SRC s) (VL cfg div 16)\<rparr>;
          s = s\<lparr>V0 := aes_crypt cfg enc key KEYS KEYLEN (TWEAK0 s) (V0 s)\<rparr>;
          s = s\<lparr>mem := vmovdqu_store (mem s) (DST s) (V0 s)\<rparr>;
          s = s\<lparr>TWEAK0 := next_tweakvec (USE_AVX10 cfg) (VL cfg) (TWEAK0 s)\<rparr>;
          s = s\<lparr>SRC := SRC s + VL cfg\<rparr>;
          s = s\<lparr>DST := DST s + VL cfg\<rparr>
      in s\<lparr>LEN := LEN s - int (VL cfg)\<rparr>)"

function vec_at_a_time ::
  "config \<Rightarrow> bool \<Rightarrow> (nat \<Rightarrow> xmm) \<Rightarrow> xmm list \<Rightarrow> 32 word \<Rightarrow> xts_state \<Rightarrow> xts_state" where
  "vec_at_a_time cfg enc key KEYS KEYLEN s =
     (let s = vec_at_a_time_body cfg enc key KEYS KEYLEN s
      in if 0 \<le> LEN s then vec_at_a_time cfg enc key KEYS KEYLEN s else s)"
  by pat_completeness auto
termination
  by (relation "measure (\<lambda>(cfg, enc, key, KEYS, KEYLEN, s). nat (LEN s))")
     (auto simp add: vec_at_a_time_body_def Let_def VL_pos dest: VL_le_pos)

text \<open>One block, with the xmm aliases: \<open>TWEAK0_XMM\<close> is the low lane of \<open>TWEAK0\<close>.\<close>

definition block_at_a_time_body ::
  "config \<Rightarrow> bool \<Rightarrow> (nat \<Rightarrow> xmm) \<Rightarrow> xmm list \<Rightarrow> 32 word \<Rightarrow> xts_state \<Rightarrow> xts_state" where
  "block_at_a_time_body cfg enc key KEYS KEYLEN s =
     (let s = s\<lparr>V0 := [load128 (mem s) (SRC s)]\<rparr>;
          s = s\<lparr>V0 := aes_crypt cfg enc key KEYS KEYLEN [low_lane (TWEAK0 s)] (V0 s)\<rparr>;
          s = s\<lparr>mem := store128 (mem s) (DST s) (low_lane (V0 s))\<rparr>;
          s = s\<lparr>TWEAK0 := write_xmm (VL cfg) (next_tweak (low_lane (TWEAK0 s)))\<rparr>;
          s = s\<lparr>SRC := SRC s + 16\<rparr>;
          s = s\<lparr>DST := DST s + 16\<rparr>
      in s\<lparr>LEN := LEN s - 16\<rparr>)"

function block_at_a_time ::
  "config \<Rightarrow> bool \<Rightarrow> (nat \<Rightarrow> xmm) \<Rightarrow> xmm list \<Rightarrow> 32 word \<Rightarrow> xts_state \<Rightarrow> xts_state" where
  "block_at_a_time cfg enc key KEYS KEYLEN s =
     (let s = block_at_a_time_body cfg enc key KEYS KEYLEN s
      in if 0 \<le> LEN s then block_at_a_time cfg enc key KEYS KEYLEN s else s)"
  by pat_completeness auto
termination
  by (relation "measure (\<lambda>(cfg, enc, key, KEYS, KEYLEN, s). nat (LEN s))")
     (auto simp add: block_at_a_time_body_def Let_def)

subsection \<open>Ciphertext stealing\<close>

text \<open>\<open>.Lcts\<close>: \<open>SRC\<close> and \<open>DST\<close> point at the last full block, \<open>LEN\<close> is the length of
  the partial block behind it. \<open>CTS_TWEAK0\<close> and \<open>CTS_TWEAK1\<close> are assembler aliases of
  \<open>TWEAK0_XMM\<close> and \<open>TWEAK1_XMM\<close>, swapped for decryption.\<close>

definition cts ::
  "config \<Rightarrow> bool \<Rightarrow> (nat \<Rightarrow> xmm) \<Rightarrow> xmm list \<Rightarrow> 32 word \<Rightarrow> xts_state \<Rightarrow> xts_state" where
  "cts cfg enc key KEYS KEYLEN s =
     (let s = s\<lparr>TWEAK1 := write_xmm (VL cfg) (next_tweak (low_lane (TWEAK0 s)))\<rparr>;
          CTS_TWEAK0 = (if enc then low_lane (TWEAK0 s) else low_lane (TWEAK1 s));
          CTS_TWEAK1 = (if enc then low_lane (TWEAK1 s) else low_lane (TWEAK0 s));
          xmm0 = load128 (mem s) (SRC s);
          xmm0 = low_lane (aes_crypt cfg enc key KEYS KEYLEN [CTS_TWEAK0] [xmm0]);
          (xmm0, m) =
            (if USE_AVX10 cfg then
               (let rax = bzhi (nat (LEN s) mod 256) (- 1);
                    k1 = rax;
                    xmm1 = xmm0;
                    xmm0 = vmovdqu8_load_masked k1 (mem s) (SRC s + 16) xmm0;
                    m = vmovdqu8_store_masked k1 xmm1 (mem s) (DST s + 16)
                in (xmm0, m))
             else
               (let xmm1 = load128 (mem s) (SRC s + nat (LEN s));
                    xmm2 = vpshufb (load_cts_permute_table (nat (LEN s))) xmm0;
                    m = store128 (mem s) (DST s + nat (LEN s)) xmm2;
                    xmm3 = load_cts_permute_table (32 - nat (LEN s));
                    xmm1 = vpshufb xmm3 xmm1;
                    xmm0 = vpblendvb xmm3 xmm0 xmm1
                in (xmm0, m)));
          xmm0 = low_lane (aes_crypt cfg enc key KEYS KEYLEN [CTS_TWEAK1] [xmm0])
      in s\<lparr>mem := store128 m (DST s) xmm0\<rparr>)"

subsection \<open>The routine\<close>

text \<open>\<open>.Lhandle_remainder\<close> to \<open>.Lfull_blocks_done\<close> and, when \<open>LEN\<close> is not zero there,
  \<open>.Lcts\<close>. Each \<open>jl\<close> tests the sign of the \<open>sub\<close> or \<open>add\<close> before it.\<close>

definition handle_remainder ::
  "config \<Rightarrow> bool \<Rightarrow> (nat \<Rightarrow> xmm) \<Rightarrow> xmm list \<Rightarrow> 32 word \<Rightarrow> xts_state \<Rightarrow> xts_state" where
  "handle_remainder cfg enc key KEYS KEYLEN s =
     (let s = s\<lparr>LEN := LEN s + 4 * int (VL cfg)\<rparr>;
          s = (if VL cfg > 16 then
                 (let s = s\<lparr>LEN := LEN s - int (VL cfg)\<rparr>;
                      s = (if LEN s < 0 then s else vec_at_a_time cfg enc key KEYS KEYLEN s)
                  in s\<lparr>LEN := LEN s + (int (VL cfg) - 16)\<rparr>)
               else s\<lparr>LEN := LEN s - 16\<rparr>);
          s = (if LEN s < 0 then s else block_at_a_time cfg enc key KEYS KEYLEN s);
          s = s\<lparr>LEN := LEN s + 16\<rparr>
      in if LEN s \<noteq> 0 then cts cfg enc key KEYS KEYLEN s else s)"

text \<open>\<open>_aes_xts_crypt enc\<close>, called with the context, the data memory, the source and
  destination addresses, the length and the 16 bytes at \<open>tweak\<close>. The result is the data
  memory and the 16 bytes at \<open>tweak\<close> on return: \<open>.Ldone\<close> stores \<open>TWEAK0_XMM\<close> there. A
  vector register that the routine has not written yet holds no lanes.\<close>

definition aes_xts_crypt ::
  "config \<Rightarrow> bool \<Rightarrow> crypto_aes_ctx \<Rightarrow> (nat \<Rightarrow> byte) \<Rightarrow> nat \<Rightarrow> nat \<Rightarrow> int \<Rightarrow> xmm
     \<Rightarrow> (nat \<Rightarrow> byte) \<times> xmm" where
  "aes_xts_crypt cfg enc ctx m src dst len tweak =
     (let KEYLEN = key_length ctx;
          key = (if enc then key_enc ctx else key_dec ctx);
          len = (if len mod 16 \<noteq> 0 then len - 16 else len);
          KEYS = load_round_keys cfg key;
          (tweak0, tweak1, tweak2, tweak3) = compute_first_set_of_tweaks cfg tweak;
          s = \<lparr>mem = m, SRC = src, DST = dst, LEN = len,
               V0 = [], V1 = [], V2 = [], V3 = [], V5 = [],
               TWEAK0 = tweak0, TWEAK1 = tweak1, TWEAK2 = tweak2, TWEAK3 = tweak3,
               NEXT_TWEAK0 = [], NEXT_TWEAK1 = [], NEXT_TWEAK2 = [], NEXT_TWEAK3 = []\<rparr>;
          s = s\<lparr>LEN := LEN s - 4 * int (VL cfg)\<rparr>;
          s = (if LEN s < 0 then handle_remainder cfg enc key KEYS KEYLEN s
               else
                 (let s = main_loop cfg enc key KEYS KEYLEN s
                  in if LEN s mod (4 * int (VL cfg)) \<noteq> 0
                     then handle_remainder cfg enc key KEYS KEYLEN s else s))
      in (mem s, low_lane (TWEAK0 s)))"

text \<open>The eight functions the file assembles from the macro.\<close>

definition aes_xts_encrypt_aesni_avx where
  "aes_xts_encrypt_aesni_avx = aes_xts_crypt \<lparr>vl = VL16, USE_AVX10 = False\<rparr> True"

definition aes_xts_decrypt_aesni_avx where
  "aes_xts_decrypt_aesni_avx = aes_xts_crypt \<lparr>vl = VL16, USE_AVX10 = False\<rparr> False"

definition aes_xts_encrypt_vaes_avx2 where
  "aes_xts_encrypt_vaes_avx2 = aes_xts_crypt \<lparr>vl = VL32, USE_AVX10 = False\<rparr> True"

definition aes_xts_decrypt_vaes_avx2 where
  "aes_xts_decrypt_vaes_avx2 = aes_xts_crypt \<lparr>vl = VL32, USE_AVX10 = False\<rparr> False"

definition aes_xts_encrypt_vaes_avx10_256 where
  "aes_xts_encrypt_vaes_avx10_256 = aes_xts_crypt \<lparr>vl = VL32, USE_AVX10 = True\<rparr> True"

definition aes_xts_decrypt_vaes_avx10_256 where
  "aes_xts_decrypt_vaes_avx10_256 = aes_xts_crypt \<lparr>vl = VL32, USE_AVX10 = True\<rparr> False"

definition aes_xts_encrypt_vaes_avx10_512 where
  "aes_xts_encrypt_vaes_avx10_512 = aes_xts_crypt \<lparr>vl = VL64, USE_AVX10 = True\<rparr> True"

definition aes_xts_decrypt_vaes_avx10_512 where
  "aes_xts_decrypt_vaes_avx10_512 = aes_xts_crypt \<lparr>vl = VL64, USE_AVX10 = True\<rparr> False"

section \<open>What the specification says, as definitions\<close>

text \<open>Multiplication by \<open>x\<close> in GF(2^128), in the words of the specification:
  left-shift by 1 bit across the 128-bit value; if a 1 bit was carried out of the top,
  XOR the reduction constant \<open>0x87\<close> into the low byte.\<close>

definition gf128_mul_x :: "xmm \<Rightarrow> xmm" where
  "gf128_mul_x t =
     (let shifted = push_bit 1 t
      in if bit t 127 then shifted XOR 0x87 else shifted)"

text \<open>The plain cipher, in the words of the specification and of FIPS 197: the first
  round-key addition, the standard round for rounds 1 to \<open>nr - 1\<close>, and the last-round
  variant of the direction for round \<open>nr\<close>; 10 rounds for 128-bit keys, 12 for 192-bit,
  14 for 256-bit.\<close>

definition aes_nrounds :: "32 word \<Rightarrow> nat" where
  "aes_nrounds keylen =
     (if keylen = 16 then 10 else if keylen = 24 then 12 else if keylen = 32 then 14 else 0)"

definition aes_cipher :: "bool \<Rightarrow> (nat \<Rightarrow> xmm) \<Rightarrow> nat \<Rightarrow> xmm \<Rightarrow> xmm" where
  "aes_cipher enc key nr block =
     (let state = block XOR key 0;
          state = fold (\<lambda>i st. if enc then vaesenc (key i) st else vaesdec (key i) st) [1..<nr] state
      in if enc then vaesenclast (key nr) state else vaesdeclast (key nr) state)"

text \<open>The tweaked primitive of the specification:
  \<open>Decrypt_or_Encrypt(plaintext XOR tweak) XOR tweak\<close>.\<close>

definition tweaked_cipher :: "bool \<Rightarrow> (nat \<Rightarrow> xmm) \<Rightarrow> nat \<Rightarrow> xmm \<Rightarrow> xmm \<Rightarrow> xmm" where
  "tweaked_cipher enc key nr tweak block = aes_cipher enc key nr (block XOR tweak) XOR tweak"

section \<open>Closed forms used in the proofs\<close>

text \<open>A product with \<open>x\<close>: shifted left, and \<open>0x87\<close> folded in when bit 127 was set.
  The reduction of the bits \<open>c\<close> shifted out at the top: \<open>c\<close> times \<open>x^7 + x^2 + x + 1\<close>.\<close>

definition gf_mulx :: "xmm \<Rightarrow> xmm" where
  "gf_mulx t = push_bit 1 t XOR (if bit t 127 then 0x87 else 0)"

definition red :: "xmm \<Rightarrow> xmm" where
  "red c = c XOR push_bit 1 c XOR push_bit 2 c XOR push_bit 7 c"

text \<open>The sequence of \<open>_vaes_1x enc, last, i\<close> (and \<open>_vaes_4x enc, last, i\<close>) invocations
  that run for a key length, as pairs \<open>(last, i)\<close>, read off the branches of \<open>_aes_crypt\<close>
  and of the main loop; and the number of the last round.\<close>

definition round_schedule :: "32 word \<Rightarrow> (bool \<times> nat) list" where
  "round_schedule KEYLEN =
     [(False, 1), (False, 2), (False, 3), (False, 4), (False, 5), (False, 6), (False, 7),
      (False, 8), (False, 9)] @
     (if 24 < sint KEYLEN then [(False, 10), (False, 11), (False, 12), (False, 13), (True, 14)]
      else if KEYLEN = 24 then [(False, 10), (False, 11), (True, 12)]
      else [(True, 10)])"

definition code_nrounds :: "32 word \<Rightarrow> nat" where
  "code_nrounds KEYLEN = (if 24 < sint KEYLEN then 14 else if KEYLEN = 24 then 12 else 10)"

text \<open>What \<open>_aes_crypt\<close> does to one lane.\<close>

definition xts_block :: "bool \<Rightarrow> (nat \<Rightarrow> xmm) \<Rightarrow> 32 word \<Rightarrow> xmm \<Rightarrow> xmm \<Rightarrow> xmm" where
  "xts_block enc key KEYLEN t b = tweaked_cipher enc key (code_nrounds KEYLEN) t b"

section \<open>Lanes, bits and bytes\<close>

lemma bit_xmm_high: "128 \<le> m \<Longrightarrow> bit (t :: xmm) m = False"
  by (auto dest: bit_imp_le_length)

lemma bit_of_qwords:
  "bit (of_qwords lo hi) n \<longleftrightarrow> (if n < 64 then bit lo n else n < 128 \<and> bit hi (n - 64))"
  by (simp add: of_qwords_def bit_word_cat_iff)

lemma bit_qword: "bit (qword x i) n \<longleftrightarrow> n < 64 \<and> bit x (64 * i + n)"
  by (auto simp add: qword_def bit_ucast_iff bit_drop_bit_eq dest: bit_imp_le_length)

lemma bit_dword: "bit (dword x i) n \<longleftrightarrow> n < 32 \<and> bit x (32 * i + n)"
  by (auto simp add: dword_def bit_ucast_iff bit_drop_bit_eq dest: bit_imp_le_length)

lemma bit_of_dwords:
  "bit (of_dwords d0 d1 d2 d3) n \<longleftrightarrow>
     (if n < 32 then bit d0 n else if n < 64 then bit d1 (n - 32)
      else if n < 96 then bit d2 (n - 64) else n < 128 \<and> bit d3 (n - 96))"
  by (auto simp add: of_dwords_def bit_word_cat_iff dest: bit_imp_le_length)

lemma bit_signed_drop_bit_31:
  "bit (signed_drop_bit 31 (w :: 32 word)) n \<longleftrightarrow> n < 32 \<and> bit w 31"
  by (cases "n = 0") (auto simp add: bit_signed_drop_bit_iff dest: bit_imp_le_length)

lemma word_add_self: "(a :: 64 word) + a = push_bit 1 a"
  by (simp add: push_bit_eq_mult)

lemma bit_double:
  "bit ((w :: 'a::len word) * 2) n \<longleftrightarrow> n < LENGTH('a) \<and> 0 < n \<and> bit w (n - 1)"
proof -
  have "w * 2 = push_bit 1 w"
    by (simp add: push_bit_eq_mult)
  then show ?thesis
    by (auto simp add: bit_push_bit_iff simp del: push_bit_of_Suc_0 push_bit_Suc)
qed

lemma x87_int: "(0x87 :: int) = set_bit 7 (set_bit 2 (set_bit 1 1))"
  by (simp add: set_bit_eq_or)

lemma bit_x87_int: "bit (0x87 :: int) n \<longleftrightarrow> n = 0 \<or> n = 1 \<or> n = 2 \<or> n = 7"
  unfolding x87_int by (auto simp add: bit_set_bit_iff bit_1_iff)

lemmas lane_bits = bit_and_iff bit_xor_iff bit_or_iff bit_of_qwords bit_qword bit_dword
  bit_of_dwords bit_signed_drop_bit_31 word_add_self bit_double bit_x87_int bit_1_iff

lemma qword_of_qwords [simp]:
  "qword (of_qwords lo hi) 0 = lo"
  "qword (of_qwords lo hi) (Suc 0) = hi"
  "qword (of_qwords lo hi) 1 = hi"
  by (rule bit_word_eqI; simp add: bit_qword bit_of_qwords)+

section \<open>The single-tweak step\<close>

lemma vpshufd_0x13:
  "vpshufd 0x13 src = of_dwords (dword src 3) (dword src 0) (dword src 1) (dword src 0)"
  by (simp add: vpshufd_def)

lemma next_tweak_gf_mulx: "next_tweak t = gf_mulx t"
proof (rule bit_word_eqI)
  fix n assume "n < LENGTH(128)"
  then consider "n = 0" | "0 < n" "n < 64" | "n = 64" | "64 < n" "n < 128"
    by fastforce
  then show "bit (next_tweak t) n = bit (gf_mulx t) n"
    unfolding next_tweak_def Let_def vpshufd_0x13 vpaddq_def vpsrad_def vpand_def vpxor_def
      gf_poly_def gf_mulx_def
    by cases (auto simp add: lane_bits)
qed

lemma gf128_mul_x_gf_mulx: "gf128_mul_x t = gf_mulx t"
  by (simp add: gf128_mul_x_def gf_mulx_def Let_def)

text \<open>C2. For every 128-bit tweak, the instruction sequence of \<open>_next_tweak\<close>
  (\<open>vpshufd $0x13\<close>, \<open>vpaddq\<close>, \<open>vpsrad $31\<close>, \<open>vpand\<close> with \<open>{0x87, 1}\<close>, \<open>vpxor\<close>) computes
  the product with \<open>x\<close> as the specification defines it: the 128-bit value shifted left
  by one bit, with \<open>0x87\<close> XORed into the low byte when a 1 was carried out of bit 127,
  the carry from bit 63 into bit 64 included.\<close>

theorem next_tweak_is_gf128_mul_x: "next_tweak t = gf128_mul_x t"
proof -
  have "next_tweak t = gf_mulx t"
    by (rule next_tweak_gf_mulx)
  also have "\<dots> = gf128_mul_x t"
    by (simp add: gf128_mul_x_gf_mulx)
  finally show ?thesis .
qed

section \<open>The batched tweak advance\<close>

lemma upt_8: "[0..<8] = [0,1,2,3,4,5,6,7]"
  by (simp add: upt_rec)

text \<open>A carry-less product with \<open>0x87\<close> is the reduction of the other factor.\<close>

lemma fold_clmul_clear:
  "\<forall>i \<in> set js. \<not> bit b i \<Longrightarrow>
   fold (\<lambda>i acc. if bit b i then acc XOR push_bit i (a :: xmm) else acc) js c = c"
  by (induction js arbitrary: c) simp_all

lemma upt_8_64: "[0..<64] = [0..<8] @ [8..<64]"
  using upt_add_eq_append [of 0 8 56] by simp

lemma clmul_x87: "clmul a 0x87 = red (ucast a)"
proof -
  have high: "\<forall>i \<in> set [8..<64]. \<not> bit (0x87 :: 64 word) i"
    by (simp add: bit_x87_int)
  have "clmul a 0x87 =
        fold (\<lambda>i acc. if bit (0x87 :: 64 word) i then acc XOR push_bit i (ucast a) else acc) [0..<8] 0"
    unfolding clmul_def upt_8_64 fold_append o_apply
    by (rule fold_clmul_clear [OF high])
  also have "\<dots> = red (ucast a)"
    unfolding upt_8 red_def by (simp add: xor.assoc)
  finally show ?thesis .
qed

text \<open>\<open>vpternlogd $0x96\<close> is the XOR of its three operands, and so is \<open>_xor3\<close>.\<close>

lemma vpternlogd_0x96: "vpternlogd 0x96 a b c = a XOR b XOR c"
  unfolding vpternlogd_def upt_8
  by (rule bit_word_eqI) (auto simp add: ternlog_sel_def bit_simps)

lemma xor3_eq: "xor3 avx10 a b c = a XOR b XOR c"
  by (simp add: xor3_def vpternlogd_0x96 vpxor_def ac_simps)

lemma red_xor: "red (a XOR b) = red a XOR red b"
  by (simp add: red_def push_bit_xor xor.assoc xor.left_commute)

lemma red_push_bit: "red (push_bit k c) = push_bit k (red c)"
  by (simp add: red_def push_bit_xor push_bit_push_bit add.commute
      del: push_bit_of_Suc_0 push_bit_Suc)

lemma red_of_bool: "red (of_bool b) = (if b then 0x87 else 0)"
  by (simp add: red_def)

lemma gf_mulx_alt: "gf_mulx x = push_bit 1 x XOR red (of_bool (bit x 127))"
  by (simp add: gf_mulx_def red_of_bool)

lemma drop_bit_step:
  assumes "n < 128"
  shows "drop_bit (127 - n) (t :: xmm) =
         push_bit 1 (drop_bit (128 - n) t) XOR of_bool (bit t (127 - n))"
proof (rule bit_word_eqI)
  fix k assume k: "k < LENGTH(128)"
  show "bit (drop_bit (127 - n) t) k =
        bit (push_bit 1 (drop_bit (128 - n) t) XOR of_bool (bit t (127 - n))) k"
  proof (cases k)
    case 0
    then show ?thesis
      by (simp add: bit_simps del: push_bit_of_Suc_0 push_bit_Suc)
  next
    case (Suc m)
    with assms have "127 - n + k = 128 - n + m" "Suc (127 + m - n) = 128 + m - n"
      by simp_all
    with Suc k show ?thesis
      by (simp add: bit_simps del: push_bit_of_Suc_0 push_bit_Suc)
  qed
qed

lemma red_top_clear:
  assumes "n \<le> 64"
  shows "\<not> bit (red (drop_bit (128 - n) (t :: xmm))) 127"
  using assms by (simp add: red_def bit_simps bit_double bit_xmm_high)

text \<open>\<open>n\<close> products with \<open>x\<close>: the tweak shifted left by \<open>n\<close>, XOR the reduction of the
  \<open>n\<close> bits shifted out.\<close>

lemma gf_mulx_pow:
  "n \<le> 64 \<Longrightarrow> (gf_mulx ^^ n) t = push_bit n t XOR red (drop_bit (128 - n) t)"
proof (induction n)
  case 0
  then show ?case by (simp add: red_def)
next
  case (Suc n)
  let ?c = "drop_bit (128 - n) t"
  from Suc have IH: "(gf_mulx ^^ n) t = push_bit n t XOR red ?c" and n: "n < 64"
    by simp_all
  have top: "bit (push_bit n t XOR red ?c) 127 = bit t (127 - n)"
    using n red_top_clear [of n t] by (simp add: bit_xor_iff bit_push_bit_iff)
  have "(gf_mulx ^^ Suc n) t = gf_mulx (push_bit n t XOR red ?c)"
    by (simp add: IH)
  also have "\<dots> = push_bit (Suc n) t XOR (red (push_bit 1 ?c) XOR red (of_bool (bit t (127 - n))))"
    unfolding gf_mulx_alt top
    by (simp add: push_bit_xor push_bit_push_bit red_push_bit xor.assoc
        del: push_bit_of_Suc_0 push_bit_Suc)
  also have "\<dots> = push_bit (Suc n) t XOR red (drop_bit (127 - n) t)"
    using n by (simp add: drop_bit_step [of n t] red_xor)
  finally show ?case
    using n by (simp add: Suc_diff_le)
qed

lemma next_tweak_pow: "n \<le> 64 \<Longrightarrow> (next_tweak ^^ n) t = push_bit n t XOR red (drop_bit (128 - n) t)"
proof -
  have "next_tweak = gf_mulx"
    by (rule ext) (rule next_tweak_gf_mulx)
  then show "n \<le> 64 \<Longrightarrow> ?thesis"
    by (simp add: gf_mulx_pow)
qed

text \<open>The lane shifts of \<open>_next_tweakvec\<close> put together the 128-bit shift, and the high
  quadword of \<open>tmp1\<close> holds the bits shifted out.\<close>

lemma carry_bits_hi:
  assumes "n \<le> 64"
  shows "(ucast (qword (vpsrlq (64 - n) t) 1) :: xmm) = drop_bit (128 - n) t"
proof (rule bit_word_eqI)
  fix k assume "k < LENGTH(128)"
  have *: "64 - n + k < 64 \<longleftrightarrow> k < n" "64 + (64 - n + k) = 128 - n + k"
    using assms by auto
  show "bit (ucast (qword (vpsrlq (64 - n) t) 1) :: xmm) k = bit (drop_bit (128 - n) t) k"
    using assms
    by (auto simp add: vpsrlq_def bit_ucast_iff bit_drop_bit_eq bit_of_qwords bit_qword *
          bit_xmm_high dest: bit_imp_le_length)
qed

lemma carry_bits_lo:
  assumes "m \<le> 64"
  shows "(ucast (qword (drop_bit (128 - m) t) 0) :: xmm) = drop_bit (128 - m) t"
proof (rule bit_word_eqI)
  fix k assume "k < LENGTH(128)"
  show "bit (ucast (qword (drop_bit (128 - m) t) 0) :: xmm) k = bit (drop_bit (128 - m) t) k"
    using assms
    by (auto simp add: bit_ucast_iff bit_drop_bit_eq bit_qword dest: bit_imp_le_length)
qed

lemma shift_lanes:
  assumes "n \<le> 64"
  shows "vpslldq 8 (vpsrlq (64 - n) t) XOR vpsllq n t = push_bit n t"
proof (rule bit_word_eqI)
  fix k assume k: "k < LENGTH(128)"
  show "bit (vpslldq 8 (vpsrlq (64 - n) t) XOR vpsllq n t) k = bit (push_bit n t) k"
  proof (cases "k < 64")
    case True
    then show ?thesis
      using assms k
      by (auto simp add: vpslldq_def vpsllq_def vpsrlq_def bit_xor_iff bit_push_bit_iff
            bit_drop_bit_eq bit_of_qwords bit_qword)
  next
    case False
    then have *: "64 + (k - 64 - n) = k - n" if "n \<le> k - 64"
      using that by simp
    have **: "64 - n + (k - 64) = k - n" "k - 64 < n \<Longrightarrow> k - n < 64"
      "\<not> k - 64 < n \<Longrightarrow> \<not> k - n < 64"
      using False assms by auto
    from False show ?thesis
      using assms k
      by (auto simp add: vpslldq_def vpsllq_def vpsrlq_def bit_xor_iff bit_push_bit_iff
            bit_drop_bit_eq bit_of_qwords bit_qword * ** not_less)
  qed
qed

text \<open>The instruction pattern of \<open>_next_tweakvec\<close> and of \<open>_compute_first_set_of_tweaks\<close>
  with the shift count \<open>n\<close>.\<close>

lemma pclmul_lanes:
  assumes "n \<le> 64"
  shows "vpslldq 8 (vpsrlq (64 - n) t) XOR vpclmulqdq 0x01 gf_poly (vpsrlq (64 - n) t)
           XOR vpsllq n t = (next_tweak ^^ n) t"
proof -
  let ?tmp1 = "vpsrlq (64 - n) t"
  have clm: "vpclmulqdq 0x01 gf_poly ?tmp1 = red (drop_bit (128 - n) t)"
    using assms carry_bits_hi [of n t] by (simp add: vpclmulqdq_def gf_poly_def clmul_x87)
  have "vpslldq 8 ?tmp1 XOR vpclmulqdq 0x01 gf_poly ?tmp1 XOR vpsllq n t
        = (vpslldq 8 ?tmp1 XOR vpsllq n t) XOR vpclmulqdq 0x01 gf_poly ?tmp1"
    by (simp add: ac_simps)
  then show ?thesis
    by (simp only: clm shift_lanes [OF assms] next_tweak_pow [OF assms])
qed

lemma next_tweak_pclmul_eq:
  assumes "VLEN div 16 \<le> 64"
  shows "next_tweak_pclmul avx10 VLEN t = (next_tweak ^^ (VLEN div 16)) t"
  using pclmul_lanes [OF assms, of t] by (simp add: next_tweak_pclmul_def Let_def xor3_eq)

text \<open>The instruction pattern of \<open>_tweak_step_pclmul\<close>, with byte shifts, for a shift
  count \<open>n\<close> that is a multiple of 8.\<close>

lemma pclmul_bytes:
  assumes "n \<le> 64" "8 dvd n"
  shows "vpxor (vpclmulqdq 0x00 gf_poly (vpsrldq ((128 - n) div 8) t)) (vpslldq (n div 8) t)
         = (next_tweak ^^ n) t"
proof -
  from assms have a: "8 * ((128 - n) div 8) = 128 - n" "8 * (n div 8) = n"
    by (auto elim!: dvdE)
  have "vpclmulqdq 0x00 gf_poly (drop_bit (128 - n) t) = red (drop_bit (128 - n) t)"
    using assms carry_bits_lo [of n t] by (simp add: vpclmulqdq_def gf_poly_def clmul_x87)
  then show ?thesis
    by (simp add: vpxor_def vpsrldq_def vpslldq_def a next_tweak_pow [OF assms(1)] ac_simps)
qed

section \<open>The cipher core\<close>

lemma map2_map_zip:
  "map2 f xs (map F (zip xs ys)) = map (\<lambda>(x, y). f x (F (x, y))) (zip xs ys)"
proof (induction xs arbitrary: ys)
  case Nil
  then show ?case by simp
next
  case (Cons x xs)
  then show ?case by (cases ys) simp_all
qed

lemma KEYS_nth:
  "i < 15 \<Longrightarrow> USE_AVX10 cfg \<Longrightarrow> load_round_keys cfg key ! i = key i"
  "load_round_keys cfg key ! 0 = key 0"
  by (simp_all add: load_round_keys_def)

lemma vaes_1x_eq:
  "i < 15 \<Longrightarrow> vaes_1x cfg enc final i key (load_round_keys cfg key) data = vaes enc final (key i) data"
  by (simp add: vaes_1x_def KEYS_nth)

lemma upt_rounds:
  "[Suc 0..<10] = [1,2,3,4,5,6,7,8,9]"
  "[Suc 0..<12] = [1,2,3,4,5,6,7,8,9,10,11]"
  "[Suc 0..<14] = [1,2,3,4,5,6,7,8,9,10,11,12,13]"
  by (simp_all add: upt_rec)

text \<open>The plain cipher of the specification, unrolled for the three round counts.\<close>

lemma aes_cipher_10:
  "aes_cipher enc key 10 x =
     (if enc then vaesenclast (key 10) (vaesenc (key 9) (vaesenc (key 8) (vaesenc (key 7)
        (vaesenc (key 6) (vaesenc (key 5) (vaesenc (key 4) (vaesenc (key 3) (vaesenc (key 2)
        (vaesenc (key 1) (x XOR key 0))))))))))
      else vaesdeclast (key 10) (vaesdec (key 9) (vaesdec (key 8) (vaesdec (key 7)
        (vaesdec (key 6) (vaesdec (key 5) (vaesdec (key 4) (vaesdec (key 3) (vaesdec (key 2)
        (vaesdec (key 1) (x XOR key 0)))))))))))"
  by (simp add: aes_cipher_def upt_rounds)

lemma aes_cipher_12:
  "aes_cipher enc key 12 x =
     (if enc then vaesenclast (key 12) (vaesenc (key 11) (vaesenc (key 10) (vaesenc (key 9)
        (vaesenc (key 8) (vaesenc (key 7)
        (vaesenc (key 6) (vaesenc (key 5) (vaesenc (key 4) (vaesenc (key 3) (vaesenc (key 2)
        (vaesenc (key 1) (x XOR key 0))))))))))))
      else vaesdeclast (key 12) (vaesdec (key 11) (vaesdec (key 10) (vaesdec (key 9)
        (vaesdec (key 8) (vaesdec (key 7)
        (vaesdec (key 6) (vaesdec (key 5) (vaesdec (key 4) (vaesdec (key 3) (vaesdec (key 2)
        (vaesdec (key 1) (x XOR key 0)))))))))))))"
  by (simp add: aes_cipher_def upt_rounds)

lemma aes_cipher_14:
  "aes_cipher enc key 14 x =
     (if enc then vaesenclast (key 14) (vaesenc (key 13) (vaesenc (key 12) (vaesenc (key 11)
        (vaesenc (key 10) (vaesenc (key 9) (vaesenc (key 8) (vaesenc (key 7)
        (vaesenc (key 6) (vaesenc (key 5) (vaesenc (key 4) (vaesenc (key 3) (vaesenc (key 2)
        (vaesenc (key 1) (x XOR key 0))))))))))))))
      else vaesdeclast (key 14) (vaesdec (key 13) (vaesdec (key 12) (vaesdec (key 11)
        (vaesdec (key 10) (vaesdec (key 9) (vaesdec (key 8) (vaesdec (key 7)
        (vaesdec (key 6) (vaesdec (key 5) (vaesdec (key 4) (vaesdec (key 3) (vaesdec (key 2)
        (vaesdec (key 1) (x XOR key 0)))))))))))))))"
  by (simp add: aes_cipher_def upt_rounds)

lemma xts_block_unfold:
  "xts_block enc key KEYLEN t b =
     (if 24 < sint KEYLEN then aes_cipher enc key 14 (b XOR t) XOR t
      else if KEYLEN = 24 then aes_cipher enc key 12 (b XOR t) XOR t
      else aes_cipher enc key 10 (b XOR t) XOR t)"
  by (simp add: xts_block_def tweaked_cipher_def code_nrounds_def)

text \<open>\<open>_aes_crypt\<close> works on every lane independently.\<close>

lemma aes_crypt_lanes:
  "aes_crypt cfg enc key (load_round_keys cfg key) KEYLEN tweak data
   = map2 (xts_block enc key KEYLEN) tweak data"
  by (cases enc)
     (simp_all add: aes_crypt_def vaes_1x_eq KEYS_nth vaes_def Let_def map2_map_zip o_def
        xor3_eq vpxor_def xts_block_unfold aes_cipher_10 aes_cipher_12 aes_cipher_14 ac_simps)

section \<open>Round counts\<close>

lemma keylen_cases:
  "sint (16 :: 32 word) = 16" "sint (24 :: 32 word) = 24" "sint (32 :: 32 word) = 32"
  by simp_all

lemma code_nrounds_valid:
  "KEYLEN \<in> {16, 24, 32} \<Longrightarrow> code_nrounds KEYLEN = aes_nrounds KEYLEN"
  by (auto simp add: code_nrounds_def aes_nrounds_def)

lemma aes_crypt_schedule:
  "aes_crypt cfg enc key KEYS KEYLEN tweak data =
     map2 vpxor tweak
       (fold (\<lambda>(final, i). vaes_1x cfg enc final i key KEYS) (round_schedule KEYLEN)
          (map2 (xor3 (USE_AVX10 cfg) (KEYS ! 0)) tweak data))"
  by (simp add: aes_crypt_def round_schedule_def Let_def)

lemma main_loop_rounds_schedule:
  "main_loop_rounds cfg enc key KEYS KEYLEN s =
     fold (\<lambda>(final, i). vaes_4x cfg enc final i key KEYS) (round_schedule KEYLEN) s"
  by (simp add: main_loop_rounds_def round_schedule_def Let_def)

lemma round_schedule_16:
  "round_schedule 16 = [(False, 1), (False, 2), (False, 3), (False, 4), (False, 5), (False, 6),
     (False, 7), (False, 8), (False, 9), (True, 10)]"
  by (simp add: round_schedule_def)

lemma round_schedule_24:
  "round_schedule 24 = [(False, 1), (False, 2), (False, 3), (False, 4), (False, 5), (False, 6),
     (False, 7), (False, 8), (False, 9), (False, 10), (False, 11), (True, 12)]"
  by (simp add: round_schedule_def)

lemma round_schedule_32:
  "round_schedule 32 = [(False, 1), (False, 2), (False, 3), (False, 4), (False, 5), (False, 6),
     (False, 7), (False, 8), (False, 9), (False, 10), (False, 11), (False, 12), (False, 13),
     (True, 14)]"
  by (simp add: round_schedule_def)

lemma aes_nrounds_simps:
  "aes_nrounds 16 = 10" "aes_nrounds 24 = 12" "aes_nrounds 32 = 14"
  by (simp_all add: aes_nrounds_def)

lemma upt_schedule:
  "[Suc 0..<11] = [1,2,3,4,5,6,7,8,9,10]"
  "[Suc 0..<13] = [1,2,3,4,5,6,7,8,9,10,11,12]"
  "[Suc 0..<15] = [1,2,3,4,5,6,7,8,9,10,11,12,13,14]"
  "[Suc 0..<10] = [1,2,3,4,5,6,7,8,9]"
  by (simp_all add: upt_rec)

lemma replicate_schedule:
  "replicate 9 False = [False, False, False, False, False, False, False, False, False]"
  "replicate 11 False = [False, False, False, False, False, False, False, False, False,
     False, False]"
  "replicate 13 False = [False, False, False, False, False, False, False, False, False,
     False, False, False, False]"
  "replicate 2 False = [False, False]"
  "replicate 4 False = [False, False, False, False]"
  by (simp_all add: numeral_eq_Suc)

text \<open>C4, as the code has it. For a key-length tag of 16, 24 or 32 bytes, \<open>_aes_crypt\<close> and
  the rounds of the main loop run the round macro along one schedule that depends on the
  tag only: rounds 1 to 10, 12 or 14 in order, each once; rounds 1 to 9 first, whatever
  the tag; then 0, 2 or 4 further rounds that are not the last (the claim says 0, 1 or
  3); and the last-round variant for the final round and for no other.\<close>

theorem round_count_by_key_length:
  assumes "KEYLEN \<in> {16, 24, 32}"
  shows "aes_crypt cfg enc key KEYS KEYLEN tweak data =
           map2 vpxor tweak
             (fold (\<lambda>(final, i). vaes_1x cfg enc final i key KEYS) (round_schedule KEYLEN)
                (map2 (xor3 (USE_AVX10 cfg) (KEYS ! 0)) tweak data))
       \<and> main_loop_rounds cfg enc key KEYS KEYLEN s =
           fold (\<lambda>(final, i). vaes_4x cfg enc final i key KEYS) (round_schedule KEYLEN) s
       \<and> map snd (round_schedule KEYLEN) = [1..<aes_nrounds KEYLEN + 1]
       \<and> map fst (round_schedule KEYLEN) = replicate (aes_nrounds KEYLEN - 1) False @ [True]
       \<and> take 9 (round_schedule KEYLEN) = map (Pair False) [1..<10]
       \<and> map fst (drop 9 (round_schedule KEYLEN))
           = replicate (if KEYLEN = 16 then 0 else if KEYLEN = 24 then 2 else 4) False @ [True]"
proof -
  from assms consider "KEYLEN = 16" | "KEYLEN = 24" | "KEYLEN = 32"
    by auto
  then have sched:
    "map snd (round_schedule KEYLEN) = [1..<aes_nrounds KEYLEN + 1]
     \<and> map fst (round_schedule KEYLEN) = replicate (aes_nrounds KEYLEN - 1) False @ [True]
     \<and> take 9 (round_schedule KEYLEN) = map (Pair False) [1..<10]
     \<and> map fst (drop 9 (round_schedule KEYLEN))
         = replicate (if KEYLEN = 16 then 0 else if KEYLEN = 24 then 2 else 4) False @ [True]"
  proof cases
    case 1
    then show ?thesis
      by (simp add: round_schedule_16 aes_nrounds_simps upt_schedule replicate_schedule)
  next
    case 2
    then show ?thesis
      by (simp add: round_schedule_24 aes_nrounds_simps upt_schedule replicate_schedule)
  next
    case 3
    then show ?thesis
      by (simp add: round_schedule_32 aes_nrounds_simps upt_schedule replicate_schedule)
  qed
  show ?thesis
    using sched aes_crypt_schedule [of cfg enc key KEYS KEYLEN tweak data]
      main_loop_rounds_schedule [of cfg enc key KEYS KEYLEN s]
    by blast
qed

theorem round_count_by_key_length_witness:
  "(24 :: 32 word) \<in> {16, 24, 32}
   \<and> map snd (round_schedule 24) = [1..<aes_nrounds 24 + 1]
   \<and> map fst (round_schedule 24) = replicate (aes_nrounds 24 - 1) False @ [True]
   \<and> take 9 (round_schedule 24) = map (Pair False) [1..<10]
   \<and> map fst (drop 9 (round_schedule 24))
       = replicate (if (24 :: 32 word) = 16 then 0 else if (24 :: 32 word) = 24 then 2 else 4) False
         @ [True]"
proof -
  have h: "(24 :: 32 word) \<in> {16, 24, 32}"
    by simp
  show ?thesis
    by (rule conjI [OF h round_count_by_key_length [OF h, THEN conjunct2, THEN conjunct2]])
qed

text \<open>C4 as stated fails for a 192-bit key: after round 9 the code runs two rounds that
  are not the last, and then the last one; not one.\<close>

theorem round_count_counterexample:
  "map fst (drop 9 (round_schedule 24)) \<noteq> [False, True]"
  by (simp add: round_schedule_24)

section \<open>The tweaked primitive\<close>

text \<open>C5. For a key-length tag of 16, 24 or 32 bytes, \<open>_aes_crypt\<close> with the round keys
  that \<open>_load_round_keys\<close> cached returns, for every lane on its own, the plain cipher of
  the block XOR the tweak, XOR the tweak again; and the three-way XOR at its entry is
  the tweak XOR followed by the first round-key addition.\<close>

theorem aes_crypt_is_tweaked_cipher:
  assumes "KEYLEN \<in> {16, 24, 32}"
  shows "aes_crypt cfg enc key (load_round_keys cfg key) KEYLEN tweak data
           = map2 (\<lambda>t b. aes_cipher enc key (aes_nrounds KEYLEN) (b XOR t) XOR t) tweak data
       \<and> xor3 (USE_AVX10 cfg) (key 0) t b = vpxor (vpxor b t) (key 0)"
proof -
  have "code_nrounds KEYLEN = aes_nrounds KEYLEN"
    using assms by (rule code_nrounds_valid)
  then have "xts_block enc key KEYLEN = (\<lambda>t b. aes_cipher enc key (aes_nrounds KEYLEN) (b XOR t) XOR t)"
    by (intro ext) (simp add: xts_block_def tweaked_cipher_def)
  then show ?thesis
    by (simp add: aes_crypt_lanes xor3_eq vpxor_def ac_simps)
qed

theorem aes_crypt_is_tweaked_cipher_witness:
  "(16 :: 32 word) \<in> {16, 24, 32}
   \<and> (aes_crypt \<lparr>vl = VL32, USE_AVX10 = True\<rparr> True (\<lambda>i. of_nat i)
         (load_round_keys \<lparr>vl = VL32, USE_AVX10 = True\<rparr> (\<lambda>i. of_nat i)) 16 [1, 2] [3, 4]
         = map2 (\<lambda>t b. aes_cipher True (\<lambda>i. of_nat i) (aes_nrounds 16) (b XOR t) XOR t) [1, 2] [3, 4]
      \<and> xor3 (USE_AVX10 \<lparr>vl = VL32, USE_AVX10 = True\<rparr>) ((\<lambda>i. of_nat i) 0) 1 3
          = vpxor (vpxor 3 1) ((\<lambda>i. of_nat i) 0))"
proof -
  have h: "(16 :: 32 word) \<in> {16, 24, 32}"
    by simp
  show ?thesis
    by (rule conjI [OF h aes_crypt_is_tweaked_cipher [OF h]])
qed

section \<open>The main loop: one pass\<close>

lemma vaes_4x_key:
  "i < 15 \<Longrightarrow> (if USE_AVX10 cfg then load_round_keys cfg key ! i else key i) = key i"
  by (simp add: KEYS_nth)

lemmas tweak_step_defs = tweak_step_def tweak_step_mulx_def tweak_step_pclmul_def
  set_NEXT_TWEAK_def PREV_TWEAK_def NEXT_TWEAK_def

text \<open>The five instructions of \<open>_tweak_step_mulx\<close> on a register are \<open>_next_tweak\<close> on
  every lane.\<close>

lemma mulx_steps_lanes:
  "map2 vpxor (map (vpand gf_poly) (map (vpsrad 31) (map (vpshufd 0x13) p))) (map2 vpaddq p p)
   = map next_tweak p"
  by (induction p) (simp_all add: next_tweak_def Let_def)

lemma pclmul_steps_lanes:
  "map2 vpxor (map (vpclmulqdq 0x00 gf_poly) (map (vpsrldq a) p)) (map (vpslldq b) p)
   = map (\<lambda>t. vpxor (vpclmulqdq 0x00 gf_poly (vpsrldq a t)) (vpslldq b t)) p"
  by (induction p) simp_all

text \<open>A tweak step leaves memory, pointers and data registers alone, and a step other
  than the last leaves the tweak registers alone.\<close>

lemma tweak_step_frame [simp]:
  "mem (tweak_step cfg i s) = mem s"
  "SRC (tweak_step cfg i s) = SRC s"
  "DST (tweak_step cfg i s) = DST s"
  "V0 (tweak_step cfg i s) = V0 s"
  "V1 (tweak_step cfg i s) = V1 s"
  "V2 (tweak_step cfg i s) = V2 s"
  "V3 (tweak_step cfg i s) = V3 s"
  by (simp_all add: tweak_step_defs Let_def)

lemma tweak_step_tweaks [simp]:
  assumes "i \<noteq> 1000"
  shows "TWEAK0 (tweak_step cfg i s) = TWEAK0 s"
    and "TWEAK1 (tweak_step cfg i s) = TWEAK1 s"
    and "TWEAK2 (tweak_step cfg i s) = TWEAK2 s"
    and "TWEAK3 (tweak_step cfg i s) = TWEAK3 s"
  using assms by (simp_all add: tweak_step_defs Let_def)

lemma vaes_4x_frame [simp]:
  "mem (vaes_4x cfg enc final i key KEYS s) = mem s"
  "SRC (vaes_4x cfg enc final i key KEYS s) = SRC s"
  "DST (vaes_4x cfg enc final i key KEYS s) = DST s"
  by (simp_all add: vaes_4x_def Let_def)

lemma vaes_4x_tweaks [simp]:
  assumes "i < 15"
  shows "TWEAK0 (vaes_4x cfg enc final i key KEYS s) = TWEAK0 s"
    and "TWEAK1 (vaes_4x cfg enc final i key KEYS s) = TWEAK1 s"
    and "TWEAK2 (vaes_4x cfg enc final i key KEYS s) = TWEAK2 s"
    and "TWEAK3 (vaes_4x cfg enc final i key KEYS s) = TWEAK3 s"
proof -
  from assms have "2 * (i - 1) \<noteq> 1000" "2 * (i - 1) + 1 \<noteq> 1000"
    by simp_all
  then show "TWEAK0 (vaes_4x cfg enc final i key KEYS s) = TWEAK0 s"
    and "TWEAK1 (vaes_4x cfg enc final i key KEYS s) = TWEAK1 s"
    and "TWEAK2 (vaes_4x cfg enc final i key KEYS s) = TWEAK2 s"
    and "TWEAK3 (vaes_4x cfg enc final i key KEYS s) = TWEAK3 s"
    by (simp_all add: vaes_4x_def Let_def del: One_nat_def)
qed

lemma vaes_4x_data [simp]:
  assumes "i < 15"
  shows "V0 (vaes_4x cfg enc final i key (load_round_keys cfg key) s) = vaes enc final (key i) (V0 s)"
    and "V1 (vaes_4x cfg enc final i key (load_round_keys cfg key) s) = vaes enc final (key i) (V1 s)"
    and "V2 (vaes_4x cfg enc final i key (load_round_keys cfg key) s) = vaes enc final (key i) (V2 s)"
    and "V3 (vaes_4x cfg enc final i key (load_round_keys cfg key) s) = vaes enc final (key i) (V3 s)"
  using assms by (simp_all add: vaes_4x_def Let_def vaes_4x_key)

text \<open>What the rounds of the main loop leave in each register.\<close>

lemma main_loop_rounds_frame [simp]:
  "mem (main_loop_rounds cfg enc key KEYS KEYLEN s) = mem s"
  "SRC (main_loop_rounds cfg enc key KEYS KEYLEN s) = SRC s"
  "DST (main_loop_rounds cfg enc key KEYS KEYLEN s) = DST s"
  "TWEAK0 (main_loop_rounds cfg enc key KEYS KEYLEN s) = TWEAK0 s"
  "TWEAK1 (main_loop_rounds cfg enc key KEYS KEYLEN s) = TWEAK1 s"
  "TWEAK2 (main_loop_rounds cfg enc key KEYS KEYLEN s) = TWEAK2 s"
  "TWEAK3 (main_loop_rounds cfg enc key KEYS KEYLEN s) = TWEAK3 s"
  by (simp_all add: main_loop_rounds_def Let_def)

lemma main_loop_rounds_data:
  "V0 (main_loop_rounds cfg enc key (load_round_keys cfg key) KEYLEN s)
     = fold (\<lambda>(final, i). vaes enc final (key i)) (round_schedule KEYLEN) (V0 s)"
  "V1 (main_loop_rounds cfg enc key (load_round_keys cfg key) KEYLEN s)
     = fold (\<lambda>(final, i). vaes enc final (key i)) (round_schedule KEYLEN) (V1 s)"
  "V2 (main_loop_rounds cfg enc key (load_round_keys cfg key) KEYLEN s)
     = fold (\<lambda>(final, i). vaes enc final (key i)) (round_schedule KEYLEN) (V2 s)"
  "V3 (main_loop_rounds cfg enc key (load_round_keys cfg key) KEYLEN s)
     = fold (\<lambda>(final, i). vaes enc final (key i)) (round_schedule KEYLEN) (V3 s)"
  by (simp_all add: main_loop_rounds_def round_schedule_def Let_def)

lemma main_loop_rounds_next_mulx:
  assumes "VL cfg = 16"
  shows "NEXT_TWEAK0 (main_loop_rounds cfg enc key KEYS KEYLEN s) = map next_tweak (TWEAK3 s)"
    and "NEXT_TWEAK1 (main_loop_rounds cfg enc key KEYS KEYLEN s)
           = map next_tweak (map next_tweak (TWEAK3 s))"
    and "NEXT_TWEAK2 (main_loop_rounds cfg enc key KEYS KEYLEN s)
           = map next_tweak (map next_tweak (map next_tweak (TWEAK3 s)))"
    and "NEXT_TWEAK3 (main_loop_rounds cfg enc key KEYS KEYLEN s)
           = map next_tweak (map next_tweak (map next_tweak (map next_tweak (TWEAK3 s))))"
  using assms
     apply (simp_all add: main_loop_rounds_def Let_def del: map_map)
     apply (intro conjI impI)
     apply (simp_all add: vaes_4x_def Let_def tweak_step_defs mulx_steps_lanes del: map_map)
  done

lemma main_loop_rounds_next_pclmul:
  assumes "VL cfg \<noteq> 16"
  shows "NEXT_TWEAK0 (main_loop_rounds cfg enc key KEYS KEYLEN s)
           = map (vpclmulqdq 0x00 gf_poly) (map (vpsrldq ((128 - 4 * VL cfg div 16) div 8)) (TWEAK0 s))"
    and "NEXT_TWEAK1 (main_loop_rounds cfg enc key KEYS KEYLEN s)
           = map (vpclmulqdq 0x00 gf_poly) (map (vpsrldq ((128 - 4 * VL cfg div 16) div 8)) (TWEAK1 s))"
    and "NEXT_TWEAK2 (main_loop_rounds cfg enc key KEYS KEYLEN s)
           = map (vpclmulqdq 0x00 gf_poly) (map (vpsrldq ((128 - 4 * VL cfg div 16) div 8)) (TWEAK2 s))"
    and "NEXT_TWEAK3 (main_loop_rounds cfg enc key KEYS KEYLEN s)
           = map (vpclmulqdq 0x00 gf_poly) (map (vpsrldq ((128 - 4 * VL cfg div 16) div 8)) (TWEAK3 s))"
  using assms
     apply (simp_all add: main_loop_rounds_def Let_def del: map_map)
     apply (intro conjI impI)
     apply (simp_all add: vaes_4x_def Let_def tweak_step_defs del: map_map)
  done


text \<open>One pass of the main loop. The four data registers end as \<open>_aes_crypt\<close> of the four
  vectors loaded, under the four tweak registers.\<close>

lemma schedule_fold:
  "fold (\<lambda>(final, i). vaes_1x cfg enc final i key (load_round_keys cfg key)) (round_schedule KEYLEN) d
   = fold (\<lambda>(final, i). vaes enc final (key i)) (round_schedule KEYLEN) d"
  by (simp add: round_schedule_def vaes_1x_eq)

lemma main_loop_whitening:
  "map2 (\<lambda>t d. vpternlogd 0x96 t k d) tw ld = map2 (xor3 avx10 k) tw ld"
  "map2 vpxor tw (map (\<lambda>d. vpxor d k) ld) = map2 (xor3 avx10 k) tw ld"
proof -
  show "map2 (\<lambda>t d. vpternlogd 0x96 t k d) tw ld = map2 (xor3 avx10 k) tw ld"
    by (simp add: vpternlogd_0x96 xor3_eq ac_simps)
  have "zip tw (map (\<lambda>d. vpxor d k) ld) = map (\<lambda>(t, d). (t, vpxor d k)) (zip tw ld)"
    by (simp add: zip_map2)
  then show "map2 vpxor tw (map (\<lambda>d. vpxor d k) ld) = map2 (xor3 avx10 k) tw ld"
    by (simp add: xor3_eq vpxor_def ac_simps case_prod_unfold)
qed

lemma main_loop_body_frame:
  "SRC (main_loop_body cfg enc key KEYS KEYLEN s) = SRC s + 4 * VL cfg"
  "DST (main_loop_body cfg enc key KEYS KEYLEN s) = DST s + 4 * VL cfg"
  by (simp_all add: main_loop_body_def Let_def)

lemma main_loop_body_mem:
  "mem (main_loop_body cfg enc key (load_round_keys cfg key) KEYLEN s) =
     vmovdqu_store (vmovdqu_store (vmovdqu_store (vmovdqu_store (mem s)
       (DST s)
         (aes_crypt cfg enc key (load_round_keys cfg key) KEYLEN (TWEAK0 s)
            (vmovdqu_load (mem s) (SRC s) (VL cfg div 16))))
       (DST s + VL cfg)
         (aes_crypt cfg enc key (load_round_keys cfg key) KEYLEN (TWEAK1 s)
            (vmovdqu_load (mem s) (SRC s + VL cfg) (VL cfg div 16))))
       (DST s + 2 * VL cfg)
         (aes_crypt cfg enc key (load_round_keys cfg key) KEYLEN (TWEAK2 s)
            (vmovdqu_load (mem s) (SRC s + 2 * VL cfg) (VL cfg div 16))))
       (DST s + 3 * VL cfg)
         (aes_crypt cfg enc key (load_round_keys cfg key) KEYLEN (TWEAK3 s)
            (vmovdqu_load (mem s) (SRC s + 3 * VL cfg) (VL cfg div 16)))"
  by (cases "USE_AVX10 cfg")
     (simp_all add: main_loop_body_def Let_def main_loop_rounds_data aes_crypt_schedule
        schedule_fold KEYS_nth main_loop_whitening [where ?avx10.0 = "USE_AVX10 cfg"]
        del: map_map)

lemma main_loop_body_tweaks_mulx:
  assumes "VL cfg = 16"
  shows "TWEAK0 (main_loop_body cfg enc key KEYS KEYLEN s) = map next_tweak (TWEAK3 s)"
    and "TWEAK1 (main_loop_body cfg enc key KEYS KEYLEN s)
           = map next_tweak (map next_tweak (TWEAK3 s))"
    and "TWEAK2 (main_loop_body cfg enc key KEYS KEYLEN s)
           = map next_tweak (map next_tweak (map next_tweak (TWEAK3 s)))"
    and "TWEAK3 (main_loop_body cfg enc key KEYS KEYLEN s)
           = map next_tweak (map next_tweak (map next_tweak (map next_tweak (TWEAK3 s))))"
  using assms
  by (simp_all add: main_loop_body_def Let_def tweak_step_def tweak_step_mulx_def
        main_loop_rounds_next_mulx del: map_map)

lemma VL_div_4: "VL cfg \<noteq> 16 \<Longrightarrow> VL cfg div 4 \<le> 64 \<and> 8 dvd VL cfg div 4"
  by (cases "vl cfg") (simp_all add: VL_def)

lemma main_loop_body_tweaks_pclmul:
  assumes "VL cfg \<noteq> 16"
  shows "TWEAK0 (main_loop_body cfg enc key KEYS KEYLEN s)
           = map (next_tweak ^^ (VL cfg div 4)) (TWEAK0 s)"
    and "TWEAK1 (main_loop_body cfg enc key KEYS KEYLEN s)
           = map (next_tweak ^^ (VL cfg div 4)) (TWEAK1 s)"
    and "TWEAK2 (main_loop_body cfg enc key KEYS KEYLEN s)
           = map (next_tweak ^^ (VL cfg div 4)) (TWEAK2 s)"
    and "TWEAK3 (main_loop_body cfg enc key KEYS KEYLEN s)
           = map (next_tweak ^^ (VL cfg div 4)) (TWEAK3 s)"
proof -
  from assms have n: "VL cfg div 4 \<le> 64" "8 dvd VL cfg div 4"
    using VL_div_4 by simp_all
  note pclmul_bytes [OF n, simp]
  show "TWEAK0 (main_loop_body cfg enc key KEYS KEYLEN s)
           = map (next_tweak ^^ (VL cfg div 4)) (TWEAK0 s)"
    and "TWEAK1 (main_loop_body cfg enc key KEYS KEYLEN s)
           = map (next_tweak ^^ (VL cfg div 4)) (TWEAK1 s)"
    and "TWEAK2 (main_loop_body cfg enc key KEYS KEYLEN s)
           = map (next_tweak ^^ (VL cfg div 4)) (TWEAK2 s)"
    and "TWEAK3 (main_loop_body cfg enc key KEYS KEYLEN s)
           = map (next_tweak ^^ (VL cfg div 4)) (TWEAK3 s)"
    using assms
    by (simp_all add: main_loop_body_def Let_def tweak_step_def tweak_step_pclmul_def
          main_loop_rounds_next_pclmul pclmul_steps_lanes del: map_map)
qed


section \<open>Batched and serial tweak advance\<close>

lemma next_tweakvec_eq:
  assumes "VLEN div 16 \<le> 64" "VLEN = 16 \<or> 1 < VLEN div 16"
  shows "next_tweakvec avx10 VLEN src = map (next_tweak ^^ (VLEN div 16)) src"
proof (cases "VLEN = 16")
  case True
  then show ?thesis
    by (simp add: next_tweakvec_def)
next
  case False
  have "next_tweak_pclmul avx10 VLEN = next_tweak ^^ (VLEN div 16)"
    by (rule ext) (rule next_tweak_pclmul_eq [OF assms(1)])
  with False show ?thesis
    by (simp add: next_tweakvec_def)
qed

text \<open>C3. For \<open>n\<close> in \<open>{1, 2, 3, 4, 8, 16}\<close> and every tweak in every lane (the all-ones
  tweak included): \<open>_next_tweakvec\<close> assembled for \<open>n\<close> blocks per vector, and its
  \<open>vpclmulqdq\<close> path taken by itself, give what \<open>n\<close> applications of \<open>_next_tweak\<close> give;
  and where \<open>n\<close> is the \<open>4*VL/16\<close> of a build that uses \<open>_tweak_step_pclmul\<close>, one pass of
  the main loop, which runs all its steps between the rounds, leaves in each of the
  four tweak registers what \<open>n\<close> applications of \<open>_next_tweak\<close> give.\<close>

theorem batched_tweak_advance_is_serial:
  assumes "n \<in> {1, 2, 3, 4, 8, 16}"
  shows "next_tweakvec avx10 (16 * n) src = map (next_tweak ^^ n) src
       \<and> map (next_tweak_pclmul avx10 (16 * n)) src = map (next_tweak ^^ n) src
       \<and> (VL cfg \<noteq> 16 \<and> 4 * VL cfg div 16 = n \<longrightarrow>
            TWEAK0 (main_loop_body cfg enc key KEYS KEYLEN s) = map (next_tweak ^^ n) (TWEAK0 s)
          \<and> TWEAK1 (main_loop_body cfg enc key KEYS KEYLEN s) = map (next_tweak ^^ n) (TWEAK1 s)
          \<and> TWEAK2 (main_loop_body cfg enc key KEYS KEYLEN s) = map (next_tweak ^^ n) (TWEAK2 s)
          \<and> TWEAK3 (main_loop_body cfg enc key KEYS KEYLEN s) = map (next_tweak ^^ n) (TWEAK3 s))"
proof (intro conjI impI)
  from assms have n: "16 * n div 16 = n" "n \<le> 64" "16 * n = 16 \<or> 1 < n"
    by auto
  show "next_tweakvec avx10 (16 * n) src = map (next_tweak ^^ n) src"
    using next_tweakvec_eq [of "16 * n" avx10 src] n by simp
  have "next_tweak_pclmul avx10 (16 * n) t = (next_tweak ^^ n) t" for t
    using next_tweak_pclmul_eq [of "16 * n" avx10 t] n by simp
  then show "map (next_tweak_pclmul avx10 (16 * n)) src = map (next_tweak ^^ n) src"
    by simp
next
  assume a: "VL cfg \<noteq> 16 \<and> 4 * VL cfg div 16 = n"
  then have "VL cfg div 4 = n"
    by auto
  with a show "TWEAK0 (main_loop_body cfg enc key KEYS KEYLEN s) = map (next_tweak ^^ n) (TWEAK0 s)"
    and "TWEAK1 (main_loop_body cfg enc key KEYS KEYLEN s) = map (next_tweak ^^ n) (TWEAK1 s)"
    and "TWEAK2 (main_loop_body cfg enc key KEYS KEYLEN s) = map (next_tweak ^^ n) (TWEAK2 s)"
    and "TWEAK3 (main_loop_body cfg enc key KEYS KEYLEN s) = map (next_tweak ^^ n) (TWEAK3 s)"
    using main_loop_body_tweaks_pclmul [of cfg enc key KEYS KEYLEN s] by simp_all
qed

theorem batched_tweak_advance_is_serial_witness:
  "(16 :: nat) \<in> {1, 2, 3, 4, 8, 16}
   \<and> next_tweakvec True (16 * 16) [- 1, 1] = map (next_tweak ^^ 16) [- 1, 1]
   \<and> map (next_tweak_pclmul True (16 * 16)) [- 1, 1] = map (next_tweak ^^ 16) [- 1, 1]
   \<and> (VL \<lparr>vl = VL64, USE_AVX10 = True\<rparr> \<noteq> 16 \<and> 4 * VL \<lparr>vl = VL64, USE_AVX10 = True\<rparr> div 16 = 16)
   \<and> TWEAK0 (main_loop_body \<lparr>vl = VL64, USE_AVX10 = True\<rparr> True (\<lambda>i. 0) [] 16
        \<lparr>mem = (\<lambda>p. 0), SRC = 0, DST = 0, LEN = 0, V0 = [], V1 = [], V2 = [], V3 = [], V5 = [],
         TWEAK0 = [- 1, 1, 2, 3], TWEAK1 = [], TWEAK2 = [], TWEAK3 = [],
         NEXT_TWEAK0 = [], NEXT_TWEAK1 = [], NEXT_TWEAK2 = [], NEXT_TWEAK3 = []\<rparr>)
       = map (next_tweak ^^ 16)
          (TWEAK0 \<lparr>mem = (\<lambda>p. 0), SRC = 0, DST = 0, LEN = 0, V0 = [], V1 = [], V2 = [], V3 = [], V5 = [],
         TWEAK0 = [- 1, 1, 2, 3], TWEAK1 = [], TWEAK2 = [], TWEAK3 = [],
         NEXT_TWEAK0 = [], NEXT_TWEAK1 = [], NEXT_TWEAK2 = [], NEXT_TWEAK3 = []\<rparr>)"
proof -
  have h: "(16 :: nat) \<in> {1, 2, 3, 4, 8, 16}"
    by simp
  have p: "VL \<lparr>vl = VL64, USE_AVX10 = True\<rparr> \<noteq> 16 \<and> 4 * VL \<lparr>vl = VL64, USE_AVX10 = True\<rparr> div 16 = 16"
    by (simp add: VL_def)
  show ?thesis
    using h p batched_tweak_advance_is_serial [OF h, of True "[- 1, 1]" "\<lparr>vl = VL64, USE_AVX10 = True\<rparr>"
        True "\<lambda>i. 0" "[]" 16]
    by blast
qed

end
